theory Spec2Isabelle
  imports Main "HOL-Library.Word"
begin

section \<open>The hotplug coordinator of the container-management daemon (daemon/hotplug.c)\<close>

text \<open>
  The coordinator keeps two registries (USB mappings and net mappings), reacts to kernel
  uevents and calls into collaborators of the daemon (device cgroup, token entries, network
  helpers, event loop).  The embedding threads the file's global and static variables
  through a state record, answers every question the code asks its collaborators from an
  environment record, and returns the calls the code issues on them as a list of effects,
  in program order.
\<close>

subsection \<open>Data model\<close>

text \<open>A \<^verbatim>\<open>container_t *\<close> is an opaque, non-null handle.\<close>

type_synonym container = nat

text \<open>
  Modelled from the spec: \<^verbatim>\<open>hotplug_usbdev_type_t\<close> is declared in hotplug.h, which
  is not part of the sources at hand; the spec names the kinds generic and token, and the
  code only ever tests for the token kind.
\<close>

datatype hotplug_usbdev_type = HOTPLUG_USBDEV_TYPE_GENERIC | HOTPLUG_USBDEV_TYPE_TOKEN

record hotplug_usbdev =
  i_serial :: string
  id_vendor :: "16 word"
  id_product :: "16 word"
  major :: int
  minor :: int
  assign :: bool
  type :: hotplug_usbdev_type

text \<open>
  \<^verbatim>\<open>hotplug_container_dev_mapping_t\<close>: \<open>map_usbdev\<close> is the address of the mapping's
  own \<^verbatim>\<open>hotplug_usbdev_t\<close> object.
\<close>

record hotplug_container_dev_mapping =
  map_container :: container
  map_usbdev :: nat
  map_assign :: bool

text \<open>
  Modelled from the spec: \<^verbatim>\<open>container_pnet_cfg_t\<close> is declared in container.h, which
  is not part of the sources at hand: a name, the MAC-filter bridge flag and the list of MAC
  addresses the filter lets through.
\<close>

type_synonym mac_addr = "8 word list"

record container_pnet_cfg =
  pnet_name :: string
  mac_filter :: bool
  mac_whitelist :: "mac_addr list"

text \<open>
  \<^verbatim>\<open>hotplug_container_netdev_mapping_t\<close>: \<open>net_pnet_cfg\<close> is the caller's pointer
  (the configuration record is shared, not copied), \<open>net_mac\<close> the six bytes of the array.
\<close>

record hotplug_container_netdev_mapping =
  net_container :: container
  net_pnet_cfg :: nat
  net_mac :: mac_addr

text \<open>
  Modelled from the spec: the uevent record lives in common/uevent.h, which is not part of
  the sources at hand.  Each field is named after the getter the code reads it with.
\<close>

record uevent_event =
  uevent_event_get_subsystem :: string
  uevent_event_get_devtype :: string
  uevent_event_get_devpath :: string
  uevent_event_get_devname :: string
  uevent_event_get_interface :: string
  uevent_event_get_major :: int
  uevent_event_get_minor :: int
  uevent_event_get_usb_vendor :: "16 word"
  uevent_event_get_usb_product :: "16 word"

text \<open>
  The \<^verbatim>\<open>actions\<close> argument is a bit mask; \<^verbatim>\<open>actions & UEVENT_ACTION_ADD\<close> is modelled
  as membership in a set of actions.
\<close>

datatype uevent_action = UEVENT_ACTION_ADD | UEVENT_ACTION_REMOVE | UEVENT_ACTION_CHANGE

text \<open>
  Modelled from the spec: the compartment states of container.h, which is not part of the
  sources at hand.
\<close>

datatype compartment_state =
    COMPARTMENT_STATE_STOPPED
  | COMPARTMENT_STATE_STARTING
  | COMPARTMENT_STATE_BOOTING
  | COMPARTMENT_STATE_RUNNING
  | COMPARTMENT_STATE_FREEZING
  | COMPARTMENT_STATE_FROZEN
  | COMPARTMENT_STATE_SHUTTING_DOWN
  | COMPARTMENT_STATE_ZOMBIE
  | COMPARTMENT_STATE_REBOOTING
  | COMPARTMENT_STATE_SETUP

text \<open>\<^verbatim>\<open>struct hotplug_token_data\<close>, the closure of the token timer.\<close>

record hotplug_token_data =
  td_container :: container
  td_devname :: string

datatype timer_callback =
    Hotplug_token_timer_cb hotplug_token_data
  | Hotplug_sysfs_netif_timer_cb uevent_event

datatype timer_repeat = EVENT_TIMER_REPEAT_FOREVER

datatype logf_prio = LOGF_PRIO_INFO | LOGF_PRIO_WARN | LOGF_PRIO_ERROR

text \<open>
  The calls issued on collaborators.  Log lines of priority INFO, WARN and ERROR are
  recorded with their format string; DEBUG and TRACE lines are left out.
\<close>

datatype effect =
    Logf logf_prio string
  | Container_device_allow container char int int bool
  | Container_device_deny container char int int
  | Container_token_attach container
  | Container_token_detach container
  | Event_add_timer nat timer_repeat timer_callback
  | Event_remove_timer
  | Event_timer_free
  | Mem_free0_token_data hotplug_token_data
  | Mem_free0_event uevent_event
  | Mem_free0_pnet_cfg nat
  | Cmld_netif_phys_add_by_name string
  | Cmld_netif_phys_remove_by_name string
  | Network_rename_ifi string string
  | Cmld_container_add_net_iface container nat container_pnet_cfg bool
  | Uevent_event_inject_into_netns uevent_event container
  | Uevent_add_uev

text \<open>
  The globals and function-local statics of the file.  Objects allocated with
  \<^verbatim>\<open>mem_new0\<close> live in a memory indexed by address: \<open>usbdev_mem\<close> for
  \<^verbatim>\<open>hotplug_usbdev_t\<close>, \<open>pnet_cfg_mem\<close> for \<^verbatim>\<open>container_pnet_cfg_t\<close>; an
  allocation takes the next unused address (\<open>usbdev_brk\<close>, \<open>pnet_cfg_brk\<close>).
  \<open>cmld_wlan_idx\<close> and \<open>cmld_eth_idx\<close> are the statics of
  \<^verbatim>\<open>hotplug_rename_ifi_new\<close> (unsigned int), \<open>retries\<close> the static of
  \<^verbatim>\<open>hotplug_token_timer_cb\<close> (int; it starts at 10 and only ever decreases, far from
  the range where the width would matter).
\<close>

record hotplug_state =
  usbdev_mem :: "nat \<Rightarrow> hotplug_usbdev"
  usbdev_brk :: nat
  hotplug_container_dev_mapping_list :: "hotplug_container_dev_mapping list"
  pnet_cfg_mem :: "nat \<Rightarrow> container_pnet_cfg"
  pnet_cfg_brk :: nat
  hotplug_container_netdev_mapping_list :: "hotplug_container_netdev_mapping list"
  cmld_wlan_idx :: "32 word"
  cmld_eth_idx :: "32 word"
  retries :: int

text \<open>
  The answers of the collaborators whose code is not part of the sources at hand
  (common/file.c, common/network.c, common/uevent.c, cmld.c, container.c).  A C function
  returning a pointer answers with an option (\<open>None\<close> for NULL), one returning a status
  with its int.
\<close>

record hotplug_env =
  file_exists :: "string \<Rightarrow> bool"
  file_read_new :: "string \<Rightarrow> nat \<Rightarrow> string option"
  network_str_to_mac_addr :: "string \<Rightarrow> mac_addr option"
  network_get_mac_by_ifname :: "string \<Rightarrow> mac_addr option"
  network_rename_ifi :: "string \<Rightarrow> string \<Rightarrow> int"
  network_interface_is_wifi :: "string \<Rightarrow> bool"
  asprintf_ok :: bool
  cmld_netif_phys_remove_by_name :: "string \<Rightarrow> bool"
  cmld_containers_get_c0 :: "container option"
  cmld_container_add_net_iface :: "container \<Rightarrow> container_pnet_cfg \<Rightarrow> bool \<Rightarrow> int"
  container_get_state :: "container \<Rightarrow> compartment_state"
  uevent_replace_member :: "uevent_event \<Rightarrow> string \<Rightarrow> string \<Rightarrow> uevent_event option"
  uevent_event_inject_into_netns :: "uevent_event \<Rightarrow> container \<Rightarrow> int"
  cmld_is_hostedmode_active :: bool
  uevent_add_uev :: int

subsection \<open>USB device handles\<close>

definition hotplug_usbdev_new ::
  "hotplug_usbdev_type \<Rightarrow> 16 word \<Rightarrow> 16 word \<Rightarrow> string \<Rightarrow> bool \<Rightarrow> hotplug_state
    \<Rightarrow> nat \<times> hotplug_state" where
  "hotplug_usbdev_new ty vendor product serial asg s =
     (let usbdev = usbdev_brk s in
      (usbdev,
       s\<lparr>usbdev_mem := (usbdev_mem s)(usbdev :=
            \<lparr>i_serial = serial, id_vendor = vendor, id_product = product,
             major = - 1, minor = - 1, assign = asg, type = ty\<rparr>),
         usbdev_brk := Suc usbdev\<rparr>))"

definition hotplug_usbdev_set_major :: "nat \<Rightarrow> int \<Rightarrow> hotplug_state \<Rightarrow> hotplug_state" where
  "hotplug_usbdev_set_major usbdev mj s =
     s\<lparr>usbdev_mem := (usbdev_mem s)(usbdev := (usbdev_mem s usbdev)\<lparr>major := mj\<rparr>)\<rparr>"

definition hotplug_usbdev_set_minor :: "nat \<Rightarrow> int \<Rightarrow> hotplug_state \<Rightarrow> hotplug_state" where
  "hotplug_usbdev_set_minor usbdev mn s =
     s\<lparr>usbdev_mem := (usbdev_mem s)(usbdev := (usbdev_mem s usbdev)\<lparr>minor := mn\<rparr>)\<rparr>"

text \<open>
  \<^verbatim>\<open>hotplug_container_dev_mapping_new\<close>: a new mapping with a new usbdev object of
  its own, filled field by field from the caller's handle.  \<^verbatim>\<open>mem_new0\<close> zeroes the
  mapping and nothing sets \<^verbatim>\<open>mapping->assign\<close>, so it stays false.
\<close>

definition hotplug_container_dev_mapping_new ::
  "container \<Rightarrow> nat \<Rightarrow> hotplug_state \<Rightarrow> hotplug_container_dev_mapping \<times> hotplug_state" where
  "hotplug_container_dev_mapping_new c usbdev s =
     (let a = usbdev_brk s; u = usbdev_mem s usbdev in
      (\<lparr>map_container = c, map_usbdev = a, map_assign = False\<rparr>,
       s\<lparr>usbdev_mem := (usbdev_mem s)(a :=
            \<lparr>i_serial = i_serial u, id_vendor = id_vendor u, id_product = id_product u,
             major = major u, minor = minor u, assign = assign u, type = type u\<rparr>),
         usbdev_brk := Suc a\<rparr>))"

definition hotplug_register_usbdevice ::
  "container \<Rightarrow> nat \<Rightarrow> hotplug_state \<Rightarrow> int \<times> effect list \<times> hotplug_state" where
  "hotplug_register_usbdevice c usbdev s =
     (let (mapping, s1) = hotplug_container_dev_mapping_new c usbdev s in
      (0,
       [Logf LOGF_PRIO_INFO ''Registered usbdevice %04x:%04x '%s' [c %d:%d] for container %s''],
       s1\<lparr>hotplug_container_dev_mapping_list :=
            hotplug_container_dev_mapping_list s1 @ [mapping]\<rparr>))"

subsection \<open>USB uevents\<close>

text \<open>The loop of the remove branch: it reads the registry and the objects, and changes nothing.\<close>

fun usb_remove_loop ::
  "uevent_event \<Rightarrow> (nat \<Rightarrow> hotplug_usbdev) \<Rightarrow> hotplug_container_dev_mapping list
    \<Rightarrow> effect list" where
  "usb_remove_loop event mem [] = []"
| "usb_remove_loop event mem (mapping # l) =
     (let u = mem (map_usbdev mapping) in
      (if uevent_event_get_major event = major u \<and> uevent_event_get_minor event = minor u
       then
         (if type u = HOTPLUG_USBDEV_TYPE_TOKEN
          then [Logf LOGF_PRIO_INFO ''HOTPLUG USB TOKEN removed'',
                Container_token_detach (map_container mapping)]
          else [Container_device_deny (map_container mapping) CHR ''c'' (major u) (minor u)])
         @ [Logf LOGF_PRIO_INFO
              ''Denied access to unbound device node %d:%d mapped in container %s'']
       else [])
      @ usb_remove_loop event mem l)"

text \<open>
  The name of the device node handed to the token timer:
  \<^verbatim>\<open>strncmp("/dev/", devname, 4) ? "/dev/" : "/"\<close> followed by the devname.
\<close>

definition token_devname :: "uevent_event \<Rightarrow> string" where
  "token_devname event =
     (if take 4 (uevent_event_get_devname event) \<noteq> ''/dev'' then ''/dev/'' else ''/'')
     @ uevent_event_get_devname event"

text \<open>The loop of the add branch: it writes major and minor into every matching object.\<close>

fun usb_add_loop ::
  "uevent_event \<Rightarrow> string \<Rightarrow> (nat \<Rightarrow> hotplug_usbdev) \<Rightarrow> hotplug_container_dev_mapping list
    \<Rightarrow> effect list \<times> (nat \<Rightarrow> hotplug_usbdev)" where
  "usb_add_loop event serial mem [] = ([], mem)"
| "usb_add_loop event serial mem (mapping # l) =
     (let u = mem (map_usbdev mapping);
          check = Logf LOGF_PRIO_INFO
            ''check mapping: %04x:%04x '%s' for %s bound device node %d:%d -> container %s''
      in
      if id_vendor u = uevent_event_get_usb_vendor event
         \<and> id_product u = uevent_event_get_usb_product event
         \<and> i_serial u = serial
      then
        (let u1 = u\<lparr>major := uevent_event_get_major event,
                    minor := uevent_event_get_minor event\<rparr>;
             mem1 = mem(map_usbdev mapping := u1);
             (rest, mem2) = usb_add_loop event serial mem1 l
         in
         ([check, Logf LOGF_PRIO_INFO ''%s bound device node %d:%d -> container %s'']
          @ (if type u1 = HOTPLUG_USBDEV_TYPE_TOKEN
             then [Logf LOGF_PRIO_INFO ''HOTPLUG USB TOKEN added'',
                   Event_add_timer 100 EVENT_TIMER_REPEAT_FOREVER
                     (Hotplug_token_timer_cb
                        \<lparr>td_container = map_container mapping,
                         td_devname = token_devname event\<rparr>)]
             else [])
          @ [Container_device_allow (map_container mapping) CHR ''c'' (major u1) (minor u1)
               (map_assign mapping)]
          @ rest,
          mem2))
      else
        (let (rest, mem2) = usb_add_loop event serial mem l in (check # rest, mem2)))"

text \<open>
  The serial the add branch works with: the content of \<^verbatim>\<open>/sys/<devpath>/serial\<close>
  (at most 255 bytes), without one trailing newline; \<open>None\<close> where the code gives up
  ("Failed to read serial of usb device": no file, no content, or an empty string).
\<close>

definition usb_read_serial :: "hotplug_env \<Rightarrow> uevent_event \<Rightarrow> string option" where
  "usb_read_serial env event =
     (let serial_path = ''/sys/'' @ uevent_event_get_devpath event @ ''/serial'';
          serial = (if file_exists env serial_path then file_read_new env serial_path 255
                    else None)
      in case serial of
           None \<Rightarrow> None
         | Some sr \<Rightarrow>
             if length sr < 1 then None
             else if last sr = CHR 0x0A then Some (butlast sr)
             else Some sr)"

definition hotplug_handle_usb_device ::
  "hotplug_env \<Rightarrow> uevent_action set \<Rightarrow> uevent_event \<Rightarrow> hotplug_state
    \<Rightarrow> bool \<times> effect list \<times> hotplug_state" where
  "hotplug_handle_usb_device env actions event s =
     (if take 3 (uevent_event_get_subsystem event) \<noteq> ''usb''
         \<or> take 10 (uevent_event_get_devtype event) \<noteq> ''usb_device''
      then (False, [], s)
      else
        (let removed =
               (if UEVENT_ACTION_REMOVE \<in> actions
                then usb_remove_loop event (usbdev_mem s) (hotplug_container_dev_mapping_list s)
                else [])
         in
         if UEVENT_ACTION_ADD \<in> actions
         then
           (case usb_read_serial env event of
              None \<Rightarrow> (False, removed, s)
            | Some serial \<Rightarrow>
                (let (added, mem1) =
                       usb_add_loop event serial (usbdev_mem s)
                         (hotplug_container_dev_mapping_list s)
                 in (False, removed @ added, s\<lparr>usbdev_mem := mem1\<rparr>)))
         else (False, removed, s)))"

subsection \<open>The token timer\<close>

text \<open>
  \<^verbatim>\<open>hotplug_token_timer_cb\<close>, fired by the event loop every 100 ms.  The static
  \<^verbatim>\<open>retries\<close> is read and decremented by \<^verbatim>\<open>0 > retries--\<close> in every call, of
  whichever timer.  The first component of the result tells whether the timer stays
  scheduled.
\<close>

definition hotplug_token_timer_cb ::
  "hotplug_env \<Rightarrow> hotplug_token_data \<Rightarrow> hotplug_state \<Rightarrow> bool \<times> effect list \<times> hotplug_state" where
  "hotplug_token_timer_cb env token_data s =
     (let r = retries s;
          s1 = s\<lparr>retries := r - 1\<rparr>;
          out = [Mem_free0_token_data token_data, Event_remove_timer, Event_timer_free]
      in
      if 0 > r then (False, out, s1)
      else if \<not> file_exists env (td_devname token_data) then (True, [], s1)
      else
        (False,
         [Container_token_attach (td_container token_data),
          Logf LOGF_PRIO_INFO ''Processed token attachment of token %s for container %s'']
         @ out,
         s1))"

text \<open>
  Modelled from the spec: the event loop (common/event.c) is not part of the sources at hand.
  A repeating timer fires its callback once per period, each time in the environment of
  that moment, until the callback removes the timer; the list holds the environments of the
  periods observed.
\<close>

fun token_timer_run ::
  "hotplug_env list \<Rightarrow> hotplug_token_data \<Rightarrow> hotplug_state \<Rightarrow> effect list \<times> hotplug_state" where
  "token_timer_run [] token_data s = ([], s)"
| "token_timer_run (env # envs) token_data s =
     (case hotplug_token_timer_cb env token_data s of
        (alive, effs, s1) \<Rightarrow>
          if alive
          then (case token_timer_run envs token_data s1 of (rest, s2) \<Rightarrow> (effs @ rest, s2))
          else (effs, s1))"

subsection \<open>Registration of net mappings\<close>

text \<open>
  \<^verbatim>\<open>network_str_to_mac_addr\<close> writes the parsed address into \<^verbatim>\<open>mapping->mac\<close> and
  returns -1 where the string is no MAC address: the environment answers \<open>None\<close> there.
\<close>

definition hotplug_container_netdev_mapping_new ::
  "hotplug_env \<Rightarrow> container \<Rightarrow> nat \<Rightarrow> hotplug_state \<Rightarrow> hotplug_container_netdev_mapping option"
  where
  "hotplug_container_netdev_mapping_new env c pnet_cfg s =
     (case network_str_to_mac_addr env (pnet_name (pnet_cfg_mem s pnet_cfg)) of
        None \<Rightarrow> None
      | Some mac \<Rightarrow> Some \<lparr>net_container = c, net_pnet_cfg = pnet_cfg, net_mac = mac\<rparr>)"

definition hotplug_register_netdev ::
  "hotplug_env \<Rightarrow> container \<Rightarrow> nat \<Rightarrow> hotplug_state \<Rightarrow> int \<times> effect list \<times> hotplug_state" where
  "hotplug_register_netdev env c pnet_cfg s =
     (case hotplug_container_netdev_mapping_new env c pnet_cfg s of
        None \<Rightarrow> (- 1, [], s)
      | Some mapping \<Rightarrow>
          (0,
           [Logf LOGF_PRIO_INFO ''Registered netdev '%s' for container %s''],
           s\<lparr>hotplug_container_netdev_mapping_list :=
                hotplug_container_netdev_mapping_list s @ [mapping]\<rparr>))"

subsection \<open>Renaming of interfaces\<close>

text \<open>
  \<^verbatim>\<open>strstr\<close>: the offset of the first occurrence of \<open>old\<close> in \<open>str\<close>, and
  \<^verbatim>\<open>hotplug_replace_devpath_new\<close>, which replaces that occurrence.
\<close>

fun strstr :: "string \<Rightarrow> string \<Rightarrow> nat option" where
  "strstr [] old = (if old = [] then Some 0 else None)"
| "strstr (c # cs) old =
     (if take (length old) (c # cs) = old then Some 0 else map_option Suc (strstr cs old))"

definition hotplug_replace_devpath_new :: "string \<Rightarrow> string \<Rightarrow> string \<Rightarrow> string option" where
  "hotplug_replace_devpath_new str oldstr newstr =
     (case strstr str oldstr of
        None \<Rightarrow> None
      | Some off_old \<Rightarrow>
          Some (take off_old str @ newstr @ drop (off_old + length oldstr) str))"

text \<open>What \<^verbatim>\<open>%d\<close> prints: the decimal digits of an int, with a minus sign below 0.\<close>

fun dec_of_nat :: "nat \<Rightarrow> string" where
  "dec_of_nat n =
     (if n < 10 then [''0123456789'' ! n]
      else dec_of_nat (n div 10) @ [''0123456789'' ! (n mod 10)])"

declare dec_of_nat.simps [simp del]

definition dec_of_int :: "int \<Rightarrow> string" where
  "dec_of_int i = (if i < 0 then CHR ''-'' # dec_of_nat (nat (- i)) else dec_of_nat (nat i))"

text \<open>
  \<^verbatim>\<open>hotplug_rename_ifi_new\<close>.  The counter is the wlan counter where the
  family string is "wlan" and the eth counter for every other string; it is an unsigned int printed with
  \<^verbatim>\<open>%d\<close>, that is as the signed value of its 32 bits, and it is incremented before the
  rename is tried.  \<^verbatim>\<open>asprintf\<close> fails only where memory is exhausted.
\<close>

definition hotplug_rename_ifi_new ::
  "hotplug_env \<Rightarrow> string \<Rightarrow> string \<Rightarrow> hotplug_state \<Rightarrow> string option \<times> effect list \<times> hotplug_state"
  where
  "hotplug_rename_ifi_new env oldname ifi_infix s =
     (let wlan = (ifi_infix = ''wlan'');
          ifi_idx = (if wlan then cmld_wlan_idx s else cmld_eth_idx s)
      in
      if \<not> asprintf_ok env
      then (None, [Logf LOGF_PRIO_ERROR ''Failed to generate new interface name''], s)
      else
        (let newname = ''cml'' @ ifi_infix @ dec_of_int (sint ifi_idx);
             s1 = (if wlan then s\<lparr>cmld_wlan_idx := ifi_idx + 1\<rparr>
                   else s\<lparr>cmld_eth_idx := ifi_idx + 1\<rparr>);
             effs = [Logf LOGF_PRIO_INFO ''Renaming %s to %s'',
                     Network_rename_ifi oldname newname]
         in
         if network_rename_ifi env oldname newname \<noteq> 0
         then (None, effs @ [Logf LOGF_PRIO_ERROR ''Failed to rename interface %s''], s1)
         else (Some newname, effs, s1)))"

text \<open>
  \<^verbatim>\<open>hotplug_rename_interface\<close>: the family string is the devtype of the event, "eth" where the
  event has none.  The uevent with the new interface name, \<open>uev_chname\<close>, is an
  intermediate copy: it is freed once the devpath has been replaced in it, or has failed to
  be.
\<close>

definition hotplug_rename_interface ::
  "hotplug_env \<Rightarrow> uevent_event \<Rightarrow> hotplug_state
    \<Rightarrow> uevent_event option \<times> effect list \<times> hotplug_state" where
  "hotplug_rename_interface env event s =
     (let event_ifname = uevent_event_get_interface event;
          event_devpath = uevent_event_get_devpath event;
          prefix = (if uevent_event_get_devtype event = [] then ''eth''
                    else uevent_event_get_devtype event)
      in
      case hotplug_rename_ifi_new env event_ifname prefix s of
        (None, e1, s1) \<Rightarrow> (None, e1, s1)
      | (Some new_ifname, e1, s1) \<Rightarrow>
          (let e2 = Cmld_netif_phys_remove_by_name event_ifname #
                    (if cmld_netif_phys_remove_by_name env event_ifname
                     then [Cmld_netif_phys_add_by_name new_ifname] else [])
           in
           case hotplug_replace_devpath_new event_devpath event_ifname new_ifname of
             None \<Rightarrow> (None, e1 @ e2, s1)
           | Some new_devpath \<Rightarrow>
               (case uevent_replace_member env event event_ifname new_ifname of
                  None \<Rightarrow>
                    (None,
                     e1 @ e2 @ [Logf LOGF_PRIO_ERROR
                                  ''Failed to rename interface name %s in uevent''],
                     s1)
                | Some uev_chname \<Rightarrow>
                    (case uevent_replace_member env uev_chname
                            (uevent_event_get_devpath uev_chname) new_devpath of
                       None \<Rightarrow>
                         (None,
                          e1 @ e2 @ [Logf LOGF_PRIO_ERROR
                                       ''Failed to rename devpath %s in uevent'',
                                     Mem_free0_event uev_chname],
                          s1)
                     | Some uev_chdevpath \<Rightarrow>
                         (Some uev_chdevpath, e1 @ e2 @ [Mem_free0_event uev_chname], s1)))))"

text \<open>
  The renames of \<^verbatim>\<open>hotplug_init\<close>: every known physical interface is renamed with
  the family string "wlan" or "eth"; a name whose rename fails stays in the list.
\<close>

fun hotplug_init_rename ::
  "hotplug_env \<Rightarrow> string list \<Rightarrow> hotplug_state \<Rightarrow> string list \<times> effect list \<times> hotplug_state"
  where
  "hotplug_init_rename env [] s = ([], [], s)"
| "hotplug_init_rename env (ifname # l) s =
     (let prefix = (if network_interface_is_wifi env ifname then ''wlan'' else ''eth'') in
      case hotplug_rename_ifi_new env ifname prefix s of
        (if_name_new, e1, s1) \<Rightarrow>
          (case hotplug_init_rename env l s1 of
             (names, e2, s2) \<Rightarrow>
               ((case if_name_new of Some n \<Rightarrow> n | None \<Rightarrow> ifname) # names, e1 @ e2, s2)))"

definition hotplug_init ::
  "hotplug_env \<Rightarrow> string list \<Rightarrow> hotplug_state
    \<Rightarrow> int \<times> string list \<times> effect list \<times> hotplug_state" where
  "hotplug_init env netif_phys_list s =
     (case (if \<not> cmld_is_hostedmode_active env
            then hotplug_init_rename env netif_phys_list s
            else (netif_phys_list, [], s)) of
        (names, effs, s1) \<Rightarrow> (uevent_add_uev env, names, effs @ [Uevent_add_uev], s1))"

subsection \<open>Moving a physical interface\<close>

text \<open>
  Modelled from the spec: \<^verbatim>\<open>container_pnet_cfg_new\<close> is part of container.c, which is
  not part of the sources at hand; it allocates a configuration with the given name, flag and
  list.
\<close>

definition container_pnet_cfg_new ::
  "string \<Rightarrow> bool \<Rightarrow> mac_addr list \<Rightarrow> hotplug_state \<Rightarrow> nat \<times> hotplug_state" where
  "container_pnet_cfg_new name flt whitelist s =
     (pnet_cfg_brk s,
      s\<lparr>pnet_cfg_mem := (pnet_cfg_mem s)(pnet_cfg_brk s :=
           \<lparr>pnet_name = name, mac_filter = flt, mac_whitelist = whitelist\<rparr>),
        pnet_cfg_brk := Suc (pnet_cfg_brk s)\<rparr>)"

text \<open>
  Modelled from the spec: \<^verbatim>\<open>container_pnet_cfg_set_pnet_name\<close> is part of container.c
  as well; it replaces the name of the configuration.
\<close>

definition container_pnet_cfg_set_pnet_name :: "nat \<Rightarrow> string \<Rightarrow> hotplug_state \<Rightarrow> hotplug_state" where
  "container_pnet_cfg_set_pnet_name pnet_cfg name s =
     s\<lparr>pnet_cfg_mem := (pnet_cfg_mem s)(pnet_cfg := (pnet_cfg_mem s pnet_cfg)\<lparr>pnet_name := name\<rparr>)\<rparr>"

text \<open>
  The loop over the net mappings: the first mapping whose six bytes equal those of the
  interface (\<^verbatim>\<open>memcmp(iface_mac, mapping->mac, 6)\<close>).
\<close>

definition netdev_mapping_lookup ::
  "mac_addr \<Rightarrow> hotplug_container_netdev_mapping list \<Rightarrow> hotplug_container_netdev_mapping option"
  where
  "netdev_mapping_lookup iface_mac l = find (\<lambda>mapping. take 6 iface_mac = take 6 (net_mac mapping)) l"

text \<open>
  The three states in which a compartment takes an interface.
\<close>

definition container_accepts_netdev :: "hotplug_env \<Rightarrow> container \<Rightarrow> bool" where
  "container_accepts_netdev env c \<longleftrightarrow>
     \<not> (container_get_state env c \<noteq> COMPARTMENT_STATE_BOOTING
        \<and> container_get_state env c \<noteq> COMPARTMENT_STATE_RUNNING
        \<and> container_get_state env c \<noteq> COMPARTMENT_STATE_STARTING)"

text \<open>
  \<^verbatim>\<open>hotplug_netdev_move\<close> is given in two parts.  \<open>netdev_move_tail\<close> is the second
  part, from the rename on: it runs once the target compartment \<open>c\<close> and its
  configuration \<open>pnet_cfg\<close> are known and the compartment has passed the test of its
  state.  \<open>cleanup\<close> is what the error label frees besides the renamed event: the
  configuration made for c0, if one was made.
\<close>

definition netdev_move_tail ::
  "hotplug_env \<Rightarrow> uevent_event \<Rightarrow> container \<Rightarrow> nat \<Rightarrow> effect list \<Rightarrow> hotplug_state
    \<Rightarrow> int \<times> effect list \<times> hotplug_state" where
  "netdev_move_tail env event c pnet_cfg cleanup s1 =
     (case hotplug_rename_interface env event s1 of
        (newevent, e1, s2) \<Rightarrow>
          (case (case newevent of
                   Some ne \<Rightarrow>
                     (ne, [],
                      container_pnet_cfg_set_pnet_name pnet_cfg
                        (uevent_event_get_interface ne) s2,
                      [Mem_free0_event ne])
                 | None \<Rightarrow>
                     (event,
                      [Logf LOGF_PRIO_WARN
                         ''failed to rename interface %s. injecting uevent as it is''],
                      s2, [])) of
             (ev, e2, s3, free_new) \<Rightarrow>
               (let cfg = pnet_cfg_mem s3 pnet_cfg;
                    move = Cmld_container_add_net_iface c pnet_cfg cfg False
                in
                if cmld_container_add_net_iface env c cfg False \<noteq> 0
                then
                  (- 1,
                   e1 @ e2 @ [move, Logf LOGF_PRIO_ERROR ''cannot move '%s' to %s!'']
                   @ free_new @ cleanup,
                   s3)
                else if mac_filter cfg
                then
                  (0,
                   e1 @ e2 @ [move, Logf LOGF_PRIO_INFO
                      ''moved phys network interface '%s' (mac: %s) to %s'']
                   @ free_new,
                   s3)
                else
                  (0,
                   e1 @ e2 @ [move, Logf LOGF_PRIO_INFO
                      ''moved phys network interface '%s' (mac: %s) to %s'',
                      Uevent_event_inject_into_netns ev c]
                   @ (if uevent_event_inject_into_netns env ev c < 0
                      then [Logf LOGF_PRIO_WARN
                              ''could not inject uevent into netns of container %s!'']
                      else [])
                   @ free_new,
                   s3))))"

text \<open>
  The first part of \<^verbatim>\<open>hotplug_netdev_move\<close>: the MAC of the interface, the choice of
  the target and the test of its state.
\<close>

definition hotplug_netdev_move ::
  "hotplug_env \<Rightarrow> uevent_event \<Rightarrow> hotplug_state \<Rightarrow> int \<times> effect list \<times> hotplug_state" where
  "hotplug_netdev_move env event s =
     (let event_ifname = uevent_event_get_interface event in
      case network_get_mac_by_ifname env event_ifname of
        None \<Rightarrow> (- 1, [Logf LOGF_PRIO_ERROR ''Iface '%s' with no mac, skipping!''], s)
      | Some iface_mac \<Rightarrow>
          (case (case netdev_mapping_lookup iface_mac (hotplug_container_netdev_mapping_list s) of
                   Some mapping \<Rightarrow>
                     (Some (net_container mapping), net_pnet_cfg mapping, [], s)
                 | None \<Rightarrow>
                     (case container_pnet_cfg_new event_ifname False [] s of
                        (pnet_cfg_c0, s0) \<Rightarrow>
                          (cmld_containers_get_c0 env, pnet_cfg_c0,
                           [Mem_free0_pnet_cfg pnet_cfg_c0], s0))) of
             (None, pnet_cfg, cleanup, s1) \<Rightarrow>
               (- 1,
                Logf LOGF_PRIO_WARN ''Target container not found, skip moving %s'' # cleanup,
                s1)
           | (Some c, pnet_cfg, cleanup, s1) \<Rightarrow>
               if \<not> container_accepts_netdev env c
               then
                 (- 1,
                  Logf LOGF_PRIO_WARN ''Target container '%s' is not running, skip moving %s''
                  # cleanup,
                  s1)
               else netdev_move_tail env event c pnet_cfg cleanup s1))"

text \<open>
  \<^verbatim>\<open>hotplug_sysfs_netif_timer_cb\<close>: for a wlan event it waits until sysfs shows the
  interface as wireless; then it moves the interface and removes the timer.
\<close>

definition hotplug_sysfs_netif_timer_cb ::
  "hotplug_env \<Rightarrow> uevent_event \<Rightarrow> hotplug_state \<Rightarrow> bool \<times> effect list \<times> hotplug_state" where
  "hotplug_sysfs_netif_timer_cb env event s =
     (if uevent_event_get_devtype event = ''wlan''
         \<and> \<not> network_interface_is_wifi env (uevent_event_get_interface event)
      then (True, [], s)
      else
        (case hotplug_netdev_move env event s of
           (r, effs, s1) \<Rightarrow>
             (False,
              effs
              @ [if r = - 1 then Logf LOGF_PRIO_WARN ''Did not move net interface!''
                 else Logf LOGF_PRIO_INFO ''Moved net interface to target.'',
                 Mem_free0_event event, Event_remove_timer, Event_timer_free],
              s1)))"

text \<open>\<^verbatim>\<open>hotplug_handle_uevent_cb\<close>, the handler registered with the uevent source.\<close>

definition hotplug_handle_uevent_cb ::
  "hotplug_env \<Rightarrow> uevent_action set \<Rightarrow> uevent_event \<Rightarrow> hotplug_state
    \<Rightarrow> effect list \<times> hotplug_state" where
  "hotplug_handle_uevent_cb env actions event s =
     (case hotplug_handle_usb_device env actions event s of
        (handled, effs, s1) \<Rightarrow>
          if handled then (effs, s1)
          else if UEVENT_ACTION_ADD \<in> actions
                  \<and> uevent_event_get_subsystem event = ''net''
                  \<and> strstr (uevent_event_get_devpath event) ''virtual'' = None
          then
            (effs @ [Cmld_netif_phys_add_by_name (uevent_event_get_interface event),
                     Event_add_timer 100 EVENT_TIMER_REPEAT_FOREVER
                       (Hotplug_sysfs_netif_timer_cb event)],
             s1)
          else (effs, s1))"

subsection \<open>Initial state\<close>

text \<open>
  At start both registries are empty, the rename counters are 0 and the retry counter is 10.
  Memory that was never allocated reads as zero.
\<close>

definition zero_usbdev :: hotplug_usbdev where
  "zero_usbdev = \<lparr>i_serial = [], id_vendor = 0, id_product = 0, major = 0, minor = 0,
     assign = False, type = HOTPLUG_USBDEV_TYPE_GENERIC\<rparr>"

definition zero_pnet_cfg :: container_pnet_cfg where
  "zero_pnet_cfg = \<lparr>pnet_name = [], mac_filter = False, mac_whitelist = []\<rparr>"

definition hotplug_state_init :: hotplug_state where
  "hotplug_state_init =
     \<lparr>usbdev_mem = (\<lambda>a. zero_usbdev), usbdev_brk = 0,
      hotplug_container_dev_mapping_list = [],
      pnet_cfg_mem = (\<lambda>a. zero_pnet_cfg), pnet_cfg_brk = 0,
      hotplug_container_netdev_mapping_list = [],
      cmld_wlan_idx = 0, cmld_eth_idx = 0, retries = 10\<rparr>"

subsection \<open>Predicates of the properties\<close>

text \<open>A mapping matches an add event on vendor id, product id and serial string.\<close>

definition usb_mapping_matches :: "uevent_event \<Rightarrow> string \<Rightarrow> hotplug_usbdev \<Rightarrow> bool" where
  "usb_mapping_matches event serial u \<longleftrightarrow>
     id_vendor u = uevent_event_get_usb_vendor event
     \<and> id_product u = uevent_event_get_usb_product event
     \<and> i_serial u = serial"

fun is_device_allow :: "effect \<Rightarrow> bool" where
  "is_device_allow (Container_device_allow c t mj mn a) = True"
| "is_device_allow _ = False"

fun is_device_allow_on :: "container \<Rightarrow> effect \<Rightarrow> bool" where
  "is_device_allow_on c (Container_device_allow c' t mj mn a) = (c' = c)"
| "is_device_allow_on c _ = False"

fun is_device_deny :: "effect \<Rightarrow> bool" where
  "is_device_deny (Container_device_deny c t mj mn) = True"
| "is_device_deny _ = False"

text \<open>
  \<open>registry_wf\<close>: every mapping's object has been allocated.
  \<open>token_serial_unique\<close>: token mappings with one serial belong to one compartment.
\<close>

definition registry_wf :: "hotplug_state \<Rightarrow> bool" where
  "registry_wf s \<longleftrightarrow>
     (\<forall>m \<in> set (hotplug_container_dev_mapping_list s). map_usbdev m < usbdev_brk s)"

definition token_serial_unique :: "hotplug_state \<Rightarrow> bool" where
  "token_serial_unique s \<longleftrightarrow>
     (\<forall>m1 \<in> set (hotplug_container_dev_mapping_list s).
      \<forall>m2 \<in> set (hotplug_container_dev_mapping_list s).
        type (usbdev_mem s (map_usbdev m1)) = HOTPLUG_USBDEV_TYPE_TOKEN
        \<and> type (usbdev_mem s (map_usbdev m2)) = HOTPLUG_USBDEV_TYPE_TOKEN
        \<and> i_serial (usbdev_mem s (map_usbdev m1)) = i_serial (usbdev_mem s (map_usbdev m2))
        \<longrightarrow> map_container m1 = map_container m2)"

subsection \<open>Scenarios\<close>

text \<open>
  An environment in which no file exists and no interface is known, and scenario S1 of the
  spec: a token mapping (vendor 0x1050, product 0x0407, serial 0001) of compartment 1, the add
  event of the device at 189:3, and a serial file holding the serial and a newline.
\<close>

definition env_quiet :: hotplug_env where
  "env_quiet =
     \<lparr>file_exists = (\<lambda>p. False), file_read_new = (\<lambda>p n. None),
      network_str_to_mac_addr = (\<lambda>n. None), network_get_mac_by_ifname = (\<lambda>n. None),
      network_rename_ifi = (\<lambda>a b. 0), network_interface_is_wifi = (\<lambda>n. False),
      asprintf_ok = True, cmld_netif_phys_remove_by_name = (\<lambda>n. False),
      cmld_containers_get_c0 = None, cmld_container_add_net_iface = (\<lambda>c p b. 0),
      container_get_state = (\<lambda>c. COMPARTMENT_STATE_STOPPED),
      uevent_replace_member = (\<lambda>e a b. None), uevent_event_inject_into_netns = (\<lambda>e c. 0),
      cmld_is_hostedmode_active = False, uevent_add_uev = 0\<rparr>"

definition s1_env :: hotplug_env where
  "s1_env = env_quiet
     \<lparr>file_exists := (\<lambda>p. p = ''/sys//devices/pci0/usb1/1-2/serial''),
      file_read_new := (\<lambda>p n. if p = ''/sys//devices/pci0/usb1/1-2/serial''
                               then Some (take n (''0001'' @ [CHR 0x0A])) else None)\<rparr>"

definition s1_event :: uevent_event where
  "s1_event =
     \<lparr>uevent_event_get_subsystem = ''usb'', uevent_event_get_devtype = ''usb_device'',
      uevent_event_get_devpath = ''/devices/pci0/usb1/1-2'',
      uevent_event_get_devname = ''bus/usb/001/004'', uevent_event_get_interface = [],
      uevent_event_get_major = 189, uevent_event_get_minor = 3,
      uevent_event_get_usb_vendor = 0x1050, uevent_event_get_usb_product = 0x0407\<rparr>"

definition s1_registered :: hotplug_state where
  "s1_registered =
     snd (snd (hotplug_register_usbdevice 1 0
       (snd (hotplug_usbdev_new HOTPLUG_USBDEV_TYPE_TOKEN 0x1050 0x0407 ''0001'' False
          hotplug_state_init))))"

definition s1_added :: hotplug_state where
  "s1_added = snd (snd (hotplug_handle_usb_device s1_env {UEVENT_ACTION_ADD} s1_event s1_registered))"

text \<open>Two handles of kind token with one serial, registered for compartments 1 and 2.\<close>

definition two_tokens_handles :: hotplug_state where
  "two_tokens_handles =
     snd (hotplug_usbdev_new HOTPLUG_USBDEV_TYPE_TOKEN 0x1050 0x0407 ''0001'' False
       (snd (hotplug_usbdev_new HOTPLUG_USBDEV_TYPE_TOKEN 0x1050 0x0407 ''0001'' False
          hotplug_state_init)))"

definition two_tokens_first :: hotplug_state where
  "two_tokens_first = snd (snd (hotplug_register_usbdevice 1 0 two_tokens_handles))"

definition two_tokens_second :: hotplug_state where
  "two_tokens_second = snd (snd (hotplug_register_usbdevice 2 1 two_tokens_first))"

text \<open>One handle of kind generic, registered twice for compartment 2.\<close>

definition twice_registered :: hotplug_state where
  "twice_registered =
     snd (snd (hotplug_register_usbdevice 2 0
       (snd (snd (hotplug_register_usbdevice 2 0
          (snd (hotplug_usbdev_new HOTPLUG_USBDEV_TYPE_GENERIC 0x1050 0x0407 ''0001'' False
             hotplug_state_init)))))))"

text \<open>A handle whose major and minor were set before it is registered.\<close>

definition preset_handle :: hotplug_state where
  "preset_handle =
     hotplug_usbdev_set_minor 0 3 (hotplug_usbdev_set_major 0 189
       (snd (hotplug_usbdev_new HOTPLUG_USBDEV_TYPE_GENERIC 0x1050 0x0407 ''0001'' False
          hotplug_state_init)))"

definition preset_registered :: hotplug_state where
  "preset_registered = snd (snd (hotplug_register_usbdevice 1 0 preset_handle))"

text \<open>The token timer of S1, and an environment in which the device node of S1 exists.\<close>

definition s1_token_data :: hotplug_token_data where
  "s1_token_data = \<lparr>td_container = 1, td_devname = token_devname s1_event\<rparr>"

definition s1_env_node :: hotplug_env where
  "s1_env_node = s1_env\<lparr>file_exists := (\<lambda>p. p = ''/dev/bus/usb/001/004'')\<rparr>"

text \<open>The state after \<open>k\<close> token timers, each of which found its node at the first firing.\<close>

fun token_attach_cycles :: "nat \<Rightarrow> hotplug_state \<Rightarrow> hotplug_state" where
  "token_attach_cycles 0 s = s"
| "token_attach_cycles (Suc k) s =
     token_attach_cycles k (snd (token_timer_run [s1_env_node] s1_token_data s))"

text \<open>
  Scenario S2 of the spec: the interface eth7 reads back the MAC 02:00:00:00:00:01, every
  compartment is booting, renames succeed, and the uevent source replaces in a uevent the
  fields that equal the old value.  The state holds one configuration named by the MAC
  string and one named eth7.
\<close>

definition s2_env :: hotplug_env where
  "s2_env = env_quiet
     \<lparr>network_str_to_mac_addr :=
        (\<lambda>n. if n = ''02:00:00:00:00:01'' then Some [2, 0, 0, 0, 0, 1] else None),
      network_get_mac_by_ifname :=
        (\<lambda>n. if n = ''eth7'' then Some [2, 0, 0, 0, 0, 1] else None),
      container_get_state := (\<lambda>c. COMPARTMENT_STATE_BOOTING),
      uevent_replace_member :=
        (\<lambda>e old new. Some (e\<lparr>uevent_event_get_interface :=
                               (if uevent_event_get_interface e = old then new
                                else uevent_event_get_interface e),
                             uevent_event_get_devpath :=
                               (if uevent_event_get_devpath e = old then new
                                else uevent_event_get_devpath e)\<rparr>))\<rparr>"

definition s2_cfgs :: hotplug_state where
  "s2_cfgs =
     snd (container_pnet_cfg_new ''eth7'' False []
       (snd (container_pnet_cfg_new ''02:00:00:00:00:01'' False [] hotplug_state_init)))"


subsection \<open>Sequences of renames\<close>






subsection \<open>Parts of the move\<close>

text \<open>
  The calls that move an interface and that inject a uevent; the uevent the move goes on
  with after the rename (the renamed one, or the original where the rename failed), the
  name it gives the configuration, and the configuration it hands to the network module.
\<close>

fun is_add_net_iface :: "effect \<Rightarrow> bool" where
  "is_add_net_iface (Cmld_container_add_net_iface c a cfg f) = True"
| "is_add_net_iface _ = False"

fun is_inject :: "effect \<Rightarrow> bool" where
  "is_inject (Uevent_event_inject_into_netns e c) = True"
| "is_inject _ = False"

definition netdev_final_event :: "hotplug_env \<Rightarrow> uevent_event \<Rightarrow> hotplug_state \<Rightarrow> uevent_event" where
  "netdev_final_event env event s =
     (case fst (hotplug_rename_interface env event s) of Some ne \<Rightarrow> ne | None \<Rightarrow> event)"

definition netdev_final_name :: "hotplug_env \<Rightarrow> uevent_event \<Rightarrow> hotplug_state \<Rightarrow> string \<Rightarrow> string" where
  "netdev_final_name env event s name =
     (case fst (hotplug_rename_interface env event s) of
        Some ne \<Rightarrow> uevent_event_get_interface ne | None \<Rightarrow> name)"

definition netdev_final_cfg ::
  "hotplug_env \<Rightarrow> uevent_event \<Rightarrow> hotplug_state \<Rightarrow> nat \<Rightarrow> container_pnet_cfg" where
  "netdev_final_cfg env event s a =
     (pnet_cfg_mem s a)
       \<lparr>pnet_name := netdev_final_name env event s (pnet_name (pnet_cfg_mem s a))\<rparr>"

text \<open>
  Scenario S2: the uevent of eth7, the registry with the MAC of S2 mapped to compartment 2,
  an environment in which every compartment is stopped, and one in which compartment 0 is
  the default compartment.
\<close>

definition s2_event :: uevent_event where
  "s2_event =
     \<lparr>uevent_event_get_subsystem = ''net'', uevent_event_get_devtype = [],
      uevent_event_get_devpath = ''/devices/pci0/net/eth7'',
      uevent_event_get_devname = [], uevent_event_get_interface = ''eth7'',
      uevent_event_get_major = 0, uevent_event_get_minor = 0,
      uevent_event_get_usb_vendor = 0, uevent_event_get_usb_product = 0\<rparr>"

definition s2_registered :: hotplug_state where
  "s2_registered = snd (snd (hotplug_register_netdev s2_env 2 0 s2_cfgs))"

definition s2_env_stopped :: hotplug_env where
  "s2_env_stopped = s2_env\<lparr>container_get_state := (\<lambda>c. COMPARTMENT_STATE_STOPPED)\<rparr>"

definition s2_env_c0 :: hotplug_env where
  "s2_env_c0 = s2_env\<lparr>cmld_containers_get_c0 := Some 0\<rparr>"

section \<open>Properties\<close>

subsection \<open>USB add\<close>

lemma usb_add_loop_nomatch:
  "\<not> usb_mapping_matches event serial (mem (map_usbdev m)) \<Longrightarrow>
   usb_add_loop event serial mem (m # l) =
     (Logf LOGF_PRIO_INFO
        ''check mapping: %04x:%04x '%s' for %s bound device node %d:%d -> container %s''
      # fst (usb_add_loop event serial mem l),
      snd (usb_add_loop event serial mem l))"
  by (auto simp add: usb_mapping_matches_def split_beta)

lemma usb_add_loop_match:
  "usb_mapping_matches event serial (mem (map_usbdev m)) \<Longrightarrow>
   usb_add_loop event serial mem (m # l) =
     (let mem1 = mem(map_usbdev m := (mem (map_usbdev m))
                   \<lparr>major := uevent_event_get_major event,
                    minor := uevent_event_get_minor event\<rparr>)
      in
      ([Logf LOGF_PRIO_INFO
          ''check mapping: %04x:%04x '%s' for %s bound device node %d:%d -> container %s'',
        Logf LOGF_PRIO_INFO ''%s bound device node %d:%d -> container %s'']
       @ (if type (mem (map_usbdev m)) = HOTPLUG_USBDEV_TYPE_TOKEN
          then [Logf LOGF_PRIO_INFO ''HOTPLUG USB TOKEN added'',
                Event_add_timer 100 EVENT_TIMER_REPEAT_FOREVER
                  (Hotplug_token_timer_cb
                     \<lparr>td_container = map_container m, td_devname = token_devname event\<rparr>)]
          else [])
       @ [Container_device_allow (map_container m) CHR ''c''
            (uevent_event_get_major event) (uevent_event_get_minor event) (map_assign m)]
       @ fst (usb_add_loop event serial mem1 l),
       snd (usb_add_loop event serial mem1 l)))"
  by (simp add: usb_mapping_matches_def split_beta Let_def)

lemma usb_matches_upd:
  "usb_mapping_matches event serial
      ((mem(b := (mem b)\<lparr>major := mj, minor := mn\<rparr>)) a)
   = usb_mapping_matches event serial (mem a)"
  by (simp add: usb_mapping_matches_def)

lemma usb_add_loop_writes:
  "snd (usb_add_loop event serial mem l) a = mem a
   \<or> snd (usb_add_loop event serial mem l) a =
       (mem a)\<lparr>major := uevent_event_get_major event, minor := uevent_event_get_minor event\<rparr>"
proof (induction l arbitrary: mem)
  case Nil
  show ?case by simp
next
  case (Cons m l)
  show ?case
  proof (cases "usb_mapping_matches event serial (mem (map_usbdev m))")
    case False
    show ?thesis using Cons.IH [of mem]
      unfolding usb_add_loop_nomatch [of event serial mem m l, OF False] snd_conv .
  next
    case True
    define mem1 where "mem1 = mem(map_usbdev m := (mem (map_usbdev m))
      \<lparr>major := uevent_event_get_major event, minor := uevent_event_get_minor event\<rparr>)"
    have step: "snd (usb_add_loop event serial mem (m # l)) = snd (usb_add_loop event serial mem1 l)"
      unfolding usb_add_loop_match [of event serial mem m l, OF True] Let_def snd_conv mem1_def ..
    have IH: "snd (usb_add_loop event serial mem1 l) a = mem1 a
       \<or> snd (usb_add_loop event serial mem1 l) a = (mem1 a)
            \<lparr>major := uevent_event_get_major event, minor := uevent_event_get_minor event\<rparr>"
      by (rule Cons.IH)
    show ?thesis
    proof (cases "a = map_usbdev m")
      case True
      have "mem1 a = (mem a)
        \<lparr>major := uevent_event_get_major event, minor := uevent_event_get_minor event\<rparr>"
        by (simp add: mem1_def True)
      with IH show ?thesis unfolding step by auto
    next
      case False
      then have "mem1 a = mem a" by (simp add: mem1_def)
      with IH show ?thesis unfolding step by simp
    qed
  qed
qed

lemma usb_add_loop_allows:
  "filter is_device_allow (fst (usb_add_loop event serial mem l)) =
   map (\<lambda>m. Container_device_allow (map_container m) CHR ''c''
              (uevent_event_get_major event) (uevent_event_get_minor event) (map_assign m))
       (filter (\<lambda>m. usb_mapping_matches event serial (mem (map_usbdev m))) l)"
proof (induction l arbitrary: mem)
  case Nil
  show ?case by simp
next
  case (Cons m l)
  show ?case
  proof (cases "usb_mapping_matches event serial (mem (map_usbdev m))")
    case False
    show ?thesis unfolding usb_add_loop_nomatch [of event serial mem m l, OF False] fst_conv
      using False Cons.IH [of mem] by simp
  next
    case True
    define mem1 where "mem1 = mem(map_usbdev m := (mem (map_usbdev m))
      \<lparr>major := uevent_event_get_major event, minor := uevent_event_get_minor event\<rparr>)"
    have same: "usb_mapping_matches event serial (mem1 a) = usb_mapping_matches event serial (mem a)"
      for a unfolding mem1_def by (rule usb_matches_upd)
    have IH: "filter is_device_allow (fst (usb_add_loop event serial mem1 l)) =
      map (\<lambda>m. Container_device_allow (map_container m) CHR ''c''
              (uevent_event_get_major event) (uevent_event_get_minor event) (map_assign m))
       (filter (\<lambda>m. usb_mapping_matches event serial (mem (map_usbdev m))) l)"
      using Cons.IH [of mem1] by (simp only: same)
    show ?thesis
      unfolding usb_add_loop_match [of event serial mem m l, OF True] Let_def fst_conv
        mem1_def [symmetric]
      by (simp add: IH True)
  qed
qed

lemma usb_add_loop_enriches:
  "m \<in> set l \<Longrightarrow> usb_mapping_matches event serial (mem (map_usbdev m)) \<Longrightarrow>
   major (snd (usb_add_loop event serial mem l) (map_usbdev m)) = uevent_event_get_major event
   \<and> minor (snd (usb_add_loop event serial mem l) (map_usbdev m)) = uevent_event_get_minor event"
proof (induction l arbitrary: mem)
  case Nil
  then show ?case by simp
next
  case (Cons x l)
  show ?case
  proof (cases "usb_mapping_matches event serial (mem (map_usbdev x))")
    case False
    have step: "snd (usb_add_loop event serial mem (x # l)) = snd (usb_add_loop event serial mem l)"
      unfolding usb_add_loop_nomatch [of event serial mem x l, OF False] snd_conv ..
    from False Cons.prems have "m \<in> set l" by auto
    then show ?thesis unfolding step using Cons.IH [of mem] Cons.prems(2) by simp
  next
    case True
    define mem1 where "mem1 = mem(map_usbdev x := (mem (map_usbdev x))
      \<lparr>major := uevent_event_get_major event, minor := uevent_event_get_minor event\<rparr>)"
    have same: "usb_mapping_matches event serial (mem1 a) = usb_mapping_matches event serial (mem a)"
      for a unfolding mem1_def by (rule usb_matches_upd)
    have step: "snd (usb_add_loop event serial mem (x # l)) = snd (usb_add_loop event serial mem1 l)"
      unfolding usb_add_loop_match [of event serial mem x l, OF True] Let_def snd_conv mem1_def ..
    show ?thesis
    proof (cases "m \<in> set l")
      case True
      have "usb_mapping_matches event serial (mem1 (map_usbdev m))"
        using Cons.prems(2) by (simp only: same)
      with True show ?thesis unfolding step by (rule Cons.IH)
    next
      case False
      with Cons.prems have mx: "m = x" by simp
      have "mem1 (map_usbdev x) = (mem (map_usbdev x))
        \<lparr>major := uevent_event_get_major event, minor := uevent_event_get_minor event\<rparr>"
        by (simp add: mem1_def)
      then show ?thesis unfolding step mx
        using usb_add_loop_writes [of event serial mem1 l "map_usbdev x"]
        by auto
    qed
  qed
qed


lemma usb_remove_loop_no_allow:
  "filter is_device_allow (usb_remove_loop event mem l) = []"
  by (induction l) (simp_all add: Let_def)

lemma allow_on_filter:
  "filter (is_device_allow_on c) effs = filter (is_device_allow_on c) (filter is_device_allow effs)"
proof -
  have "is_device_allow_on c e \<Longrightarrow> is_device_allow e" for e by (cases e) simp_all
  then have "(\<lambda>e. is_device_allow e \<and> is_device_allow_on c e) = is_device_allow_on c" by auto
  then show ?thesis by simp
qed

lemma allow_on_map:
  "filter (is_device_allow_on c)
     (map (\<lambda>m. Container_device_allow (map_container m) t mj mn (map_assign m)) l) =
   map (\<lambda>m. Container_device_allow (map_container m) t mj mn (map_assign m))
     (filter (\<lambda>m. map_container m = c) l)"
  by (induction l) simp_all

text \<open>
  Claim C1, as amended.  Take a USB add uevent whose subsystem is usb and whose devtype is
  usb_device, and let \<open>serial\<close> be the serial the handler reads from sysfs at the event's
  devpath.  Then every registered mapping whose vendor id, product id and serial string equal
  the event's vendor, product and \<open>serial\<close> is enriched with the event's major and minor;
  the device-cgroup allows the handler issues are exactly one per such mapping, in registry
  order, each on the mapping's compartment for the character device of the event; so a
  compartment gets as many allows as it owns such mappings, and exactly one where it owns
  exactly one.
\<close>

theorem usb_add_enriches_and_allows_once:
  assumes "UEVENT_ACTION_ADD \<in> actions"
    and "uevent_event_get_subsystem event = ''usb''"
    and "uevent_event_get_devtype event = ''usb_device''"
    and "usb_read_serial env event = Some serial"
  shows "(\<forall>m \<in> set (hotplug_container_dev_mapping_list s).
            usb_mapping_matches event serial (usbdev_mem s (map_usbdev m)) \<longrightarrow>
            major (usbdev_mem (snd (snd (hotplug_handle_usb_device env actions event s)))
                     (map_usbdev m)) = uevent_event_get_major event
            \<and> minor (usbdev_mem (snd (snd (hotplug_handle_usb_device env actions event s)))
                     (map_usbdev m)) = uevent_event_get_minor event)
       \<and> filter is_device_allow (fst (snd (hotplug_handle_usb_device env actions event s))) =
           map (\<lambda>m. Container_device_allow (map_container m) CHR ''c''
                   (uevent_event_get_major event) (uevent_event_get_minor event) (map_assign m))
             (filter (\<lambda>m. usb_mapping_matches event serial (usbdev_mem s (map_usbdev m)))
                (hotplug_container_dev_mapping_list s))
       \<and> (\<forall>m \<in> set (hotplug_container_dev_mapping_list s).
            filter (\<lambda>m'. usb_mapping_matches event serial (usbdev_mem s (map_usbdev m'))
                          \<and> map_container m' = map_container m)
              (hotplug_container_dev_mapping_list s) = [m] \<longrightarrow>
            filter (is_device_allow_on (map_container m))
              (fst (snd (hotplug_handle_usb_device env actions event s))) =
              [Container_device_allow (map_container m) CHR ''c''
                 (uevent_event_get_major event) (uevent_event_get_minor event) (map_assign m)])"
proof -
  let ?l = "hotplug_container_dev_mapping_list s"
  let ?removed = "if UEVENT_ACTION_REMOVE \<in> actions
                  then usb_remove_loop event (usbdev_mem s) ?l else []"
  let ?loop = "usb_add_loop event serial (usbdev_mem s) ?l"
  have run: "hotplug_handle_usb_device env actions event s =
               (False, ?removed @ fst ?loop, s\<lparr>usbdev_mem := snd ?loop\<rparr>)"
    using assms by (simp add: hotplug_handle_usb_device_def split_beta)
  have no_allow: "filter is_device_allow ?removed = []"
    by (simp add: usb_remove_loop_no_allow)
  have enriched: "\<forall>m \<in> set ?l.
            usb_mapping_matches event serial (usbdev_mem s (map_usbdev m)) \<longrightarrow>
            major (usbdev_mem (snd (snd (hotplug_handle_usb_device env actions event s)))
                     (map_usbdev m)) = uevent_event_get_major event
            \<and> minor (usbdev_mem (snd (snd (hotplug_handle_usb_device env actions event s)))
                     (map_usbdev m)) = uevent_event_get_minor event"
    unfolding run by (simp add: usb_add_loop_enriches del: usb_add_loop.simps)
  have allows: "filter is_device_allow (fst (snd (hotplug_handle_usb_device env actions event s))) =
           map (\<lambda>m. Container_device_allow (map_container m) CHR ''c''
                   (uevent_event_get_major event) (uevent_event_get_minor event) (map_assign m))
             (filter (\<lambda>m. usb_mapping_matches event serial (usbdev_mem s (map_usbdev m))) ?l)"
    unfolding run by (simp add: no_allow usb_add_loop_allows del: usb_add_loop.simps)
  have once: "\<forall>m \<in> set ?l.
            filter (\<lambda>m'. usb_mapping_matches event serial (usbdev_mem s (map_usbdev m'))
                          \<and> map_container m' = map_container m) ?l = [m] \<longrightarrow>
            filter (is_device_allow_on (map_container m))
              (fst (snd (hotplug_handle_usb_device env actions event s))) =
              [Container_device_allow (map_container m) CHR ''c''
                 (uevent_event_get_major event) (uevent_event_get_minor event) (map_assign m)]"
  proof (intro ballI impI)
    fix m
    assume one: "filter (\<lambda>m'. usb_mapping_matches event serial (usbdev_mem s (map_usbdev m'))
                          \<and> map_container m' = map_container m) ?l = [m]"
    show "filter (is_device_allow_on (map_container m))
              (fst (snd (hotplug_handle_usb_device env actions event s))) =
              [Container_device_allow (map_container m) CHR ''c''
                 (uevent_event_get_major event) (uevent_event_get_minor event) (map_assign m)]"
      by (subst allow_on_filter) (simp add: allows allow_on_map one)
  qed
  show ?thesis
    by (intro conjI) (rule enriched, rule allows, rule once)
qed

text \<open>Scenario S1 of the spec: one allow on compartment 1 for \<open>c 189:3\<close>.\<close>

theorem usb_add_enriches_and_allows_once_witness:
  "UEVENT_ACTION_ADD \<in> {UEVENT_ACTION_ADD}
   \<and> uevent_event_get_subsystem s1_event = ''usb''
   \<and> uevent_event_get_devtype s1_event = ''usb_device''
   \<and> usb_read_serial s1_env s1_event = Some ''0001''
   \<and> hotplug_container_dev_mapping_list s1_registered =
        [\<lparr>map_container = 1, map_usbdev = 1, map_assign = False\<rparr>]
   \<and> usb_mapping_matches s1_event ''0001'' (usbdev_mem s1_registered 1)
   \<and> major (usbdev_mem s1_added 1) = 189
   \<and> minor (usbdev_mem s1_added 1) = 3
   \<and> filter is_device_allow
        (fst (snd (hotplug_handle_usb_device s1_env {UEVENT_ACTION_ADD} s1_event s1_registered)))
      = [Container_device_allow 1 CHR ''c'' 189 3 False]
   \<and> filter (is_device_allow_on 1)
        (fst (snd (hotplug_handle_usb_device s1_env {UEVENT_ACTION_ADD} s1_event s1_registered)))
      = [Container_device_allow 1 CHR ''c'' 189 3 False]"
proof -
  have a: "UEVENT_ACTION_ADD \<in> {UEVENT_ACTION_ADD}" by simp
  have b: "uevent_event_get_subsystem s1_event = ''usb''" by (simp add: s1_event_def)
  have c: "uevent_event_get_devtype s1_event = ''usb_device''" by (simp add: s1_event_def)
  have d: "usb_read_serial s1_env s1_event = Some ''0001''"
    by (simp add: usb_read_serial_def s1_env_def s1_event_def env_quiet_def)
  have l: "hotplug_container_dev_mapping_list s1_registered =
        [\<lparr>map_container = 1, map_usbdev = 1, map_assign = False\<rparr>]"
    by (simp add: s1_registered_def hotplug_register_usbdevice_def
        hotplug_container_dev_mapping_new_def hotplug_usbdev_new_def hotplug_state_init_def
        Let_def)
  have m: "usbdev_mem s1_registered 1 =
      \<lparr>i_serial = ''0001'', id_vendor = 0x1050, id_product = 0x0407, major = - 1, minor = - 1,
       assign = False, type = HOTPLUG_USBDEV_TYPE_TOKEN\<rparr>"
    by (simp add: s1_registered_def hotplug_register_usbdevice_def
        hotplug_container_dev_mapping_new_def hotplug_usbdev_new_def hotplug_state_init_def
        Let_def)
  have e: "usb_mapping_matches s1_event ''0001'' (usbdev_mem s1_registered 1)"
    unfolding m by (simp add: usb_mapping_matches_def s1_event_def)
  have ev: "uevent_event_get_major s1_event = 189" "uevent_event_get_minor s1_event = 3"
    by (simp_all add: s1_event_def)
  note t = usb_add_enriches_and_allows_once [OF a b c d, of s1_registered]
  have r1: "major (usbdev_mem s1_added 1) = 189 \<and> minor (usbdev_mem s1_added 1) = 3"
    using t [THEN conjunct1] e unfolding s1_added_def l by (simp add: ev)
  have r2: "filter is_device_allow
        (fst (snd (hotplug_handle_usb_device s1_env {UEVENT_ACTION_ADD} s1_event s1_registered)))
      = [Container_device_allow 1 CHR ''c'' 189 3 False]"
    using t [THEN conjunct2, THEN conjunct1] e unfolding l by (simp add: ev)
  have r3: "filter (is_device_allow_on 1)
        (fst (snd (hotplug_handle_usb_device s1_env {UEVENT_ACTION_ADD} s1_event s1_registered)))
      = [Container_device_allow 1 CHR ''c'' 189 3 False]"
    using t [THEN conjunct2, THEN conjunct2] e unfolding l by (simp add: ev)
  show ?thesis
    using r1 by (intro conjI) (rule a, rule b, rule c, rule d, rule l, rule e, simp, simp, rule r2, rule r3)
qed

lemma usbdev_copy:
  "\<lparr>i_serial = i_serial u, id_vendor = id_vendor u, id_product = id_product u,
    major = major u, minor = minor u, assign = assign u, type = type u\<rparr> = u"
  by (cases u) simp

lemma register_usbdevice_result:
  "hotplug_register_usbdevice c usbdev s =
     (0,
      [Logf LOGF_PRIO_INFO ''Registered usbdevice %04x:%04x '%s' [c %d:%d] for container %s''],
      s\<lparr>usbdev_mem := (usbdev_mem s)(usbdev_brk s := usbdev_mem s usbdev),
        usbdev_brk := Suc (usbdev_brk s),
        hotplug_container_dev_mapping_list := hotplug_container_dev_mapping_list s @
          [\<lparr>map_container = c, map_usbdev = usbdev_brk s, map_assign = False\<rparr>]\<rparr>)"
  by (simp add: hotplug_register_usbdevice_def hotplug_container_dev_mapping_new_def Let_def
      usbdev_copy)

lemma register_usbdevice_proj:
  "fst (hotplug_register_usbdevice c usbdev s) = 0"
  "usbdev_mem (snd (snd (hotplug_register_usbdevice c usbdev s))) =
     (usbdev_mem s)(usbdev_brk s := usbdev_mem s usbdev)"
  "usbdev_brk (snd (snd (hotplug_register_usbdevice c usbdev s))) = Suc (usbdev_brk s)"
  "hotplug_container_dev_mapping_list (snd (snd (hotplug_register_usbdevice c usbdev s))) =
     hotplug_container_dev_mapping_list s @
       [\<lparr>map_container = c, map_usbdev = usbdev_brk s, map_assign = False\<rparr>]"
  by (simp_all add: register_usbdevice_result)

lemma usbdev_new_proj:
  "fst (hotplug_usbdev_new ty vendor product serial asg s) = usbdev_brk s"
  "usbdev_mem (snd (hotplug_usbdev_new ty vendor product serial asg s)) =
     (usbdev_mem s)(usbdev_brk s :=
        \<lparr>i_serial = serial, id_vendor = vendor, id_product = product,
         major = - 1, minor = - 1, assign = asg, type = ty\<rparr>)"
  "usbdev_brk (snd (hotplug_usbdev_new ty vendor product serial asg s)) = Suc (usbdev_brk s)"
  "hotplug_container_dev_mapping_list (snd (hotplug_usbdev_new ty vendor product serial asg s)) =
     hotplug_container_dev_mapping_list s"
  by (simp_all add: hotplug_usbdev_new_def Let_def)

lemma usbdev_set_proj:
  "usbdev_mem (hotplug_usbdev_set_major usbdev mj s) =
     (usbdev_mem s)(usbdev := (usbdev_mem s usbdev)\<lparr>major := mj\<rparr>)"
  "usbdev_brk (hotplug_usbdev_set_major usbdev mj s) = usbdev_brk s"
  "hotplug_container_dev_mapping_list (hotplug_usbdev_set_major usbdev mj s) =
     hotplug_container_dev_mapping_list s"
  "usbdev_mem (hotplug_usbdev_set_minor usbdev mn s) =
     (usbdev_mem s)(usbdev := (usbdev_mem s usbdev)\<lparr>minor := mn\<rparr>)"
  "usbdev_brk (hotplug_usbdev_set_minor usbdev mn s) = usbdev_brk s"
  "hotplug_container_dev_mapping_list (hotplug_usbdev_set_minor usbdev mn s) =
     hotplug_container_dev_mapping_list s"
  by (simp_all add: hotplug_usbdev_set_major_def hotplug_usbdev_set_minor_def)

lemma state_init_proj:
  "usbdev_brk hotplug_state_init = 0"
  "hotplug_container_dev_mapping_list hotplug_state_init = []"
  "usbdev_mem hotplug_state_init a = zero_usbdev"
  by (simp_all add: hotplug_state_init_def)

lemmas usb_proj = register_usbdevice_proj usbdev_new_proj usbdev_set_proj state_init_proj

lemma s1_registered_proj:
  "hotplug_container_dev_mapping_list s1_registered =
     [\<lparr>map_container = 1, map_usbdev = Suc 0, map_assign = False\<rparr>]"
  "usbdev_mem s1_registered (Suc 0) =
     \<lparr>i_serial = ''0001'', id_vendor = 0x1050, id_product = 0x0407, major = - 1, minor = - 1,
      assign = False, type = HOTPLUG_USBDEV_TYPE_TOKEN\<rparr>"
  by (simp_all add: s1_registered_def usb_proj)

lemma s1_event_proj:
  "uevent_event_get_subsystem s1_event = ''usb''"
  "uevent_event_get_devtype s1_event = ''usb_device''"
  "uevent_event_get_major s1_event = 189"
  "uevent_event_get_minor s1_event = 3"
  "uevent_event_get_usb_vendor s1_event = 0x1050"
  "uevent_event_get_usb_product s1_event = 0x0407"
  by (simp_all add: s1_event_def)

lemma s1_read_serial: "usb_read_serial s1_env s1_event = Some ''0001''"
  by (simp add: usb_read_serial_def s1_env_def s1_event_def env_quiet_def)

lemma s1_added_proj:
  "hotplug_container_dev_mapping_list s1_added =
     [\<lparr>map_container = 1, map_usbdev = Suc 0, map_assign = False\<rparr>]"
  "usbdev_mem s1_added (Suc 0) =
     \<lparr>i_serial = ''0001'', id_vendor = 0x1050, id_product = 0x0407, major = 189, minor = 3,
      assign = False, type = HOTPLUG_USBDEV_TYPE_TOKEN\<rparr>"
  by (simp_all add: s1_added_def hotplug_handle_usb_device_def s1_read_serial s1_registered_proj
      s1_event_proj)

lemma twice_registered_proj:
  "hotplug_container_dev_mapping_list twice_registered =
     [\<lparr>map_container = 2, map_usbdev = Suc 0, map_assign = False\<rparr>,
      \<lparr>map_container = 2, map_usbdev = 2, map_assign = False\<rparr>]"
  "usbdev_mem twice_registered (Suc 0) =
     \<lparr>i_serial = ''0001'', id_vendor = 0x1050, id_product = 0x0407, major = - 1, minor = - 1,
      assign = False, type = HOTPLUG_USBDEV_TYPE_GENERIC\<rparr>"
  "usbdev_mem twice_registered 2 =
     \<lparr>i_serial = ''0001'', id_vendor = 0x1050, id_product = 0x0407, major = - 1, minor = - 1,
      assign = False, type = HOTPLUG_USBDEV_TYPE_GENERIC\<rparr>"
  by (simp_all add: twice_registered_def usb_proj)

text \<open>
  Claim C1 as stated fails: the registration refuses nothing, so one device can be registered
  twice for compartment 2; both mappings match the add event of S1, and the handler issues
  the allow for \<open>c 189:3\<close> twice on compartment 2.
\<close>

theorem usb_add_allows_twice_counterexample:
  "usb_mapping_matches s1_event ''0001'' (usbdev_mem twice_registered 1)
   \<and> usb_mapping_matches s1_event ''0001'' (usbdev_mem twice_registered 2)
   \<and> filter (is_device_allow_on 2)
        (fst (snd (hotplug_handle_usb_device s1_env {UEVENT_ACTION_ADD} s1_event
                     twice_registered))) =
       [Container_device_allow 2 CHR ''c'' 189 3 False,
        Container_device_allow 2 CHR ''c'' 189 3 False]"
  by (simp add: hotplug_handle_usb_device_def s1_read_serial twice_registered_proj
      s1_event_proj usb_mapping_matches_def Let_def)

subsection \<open>USB remove\<close>

text \<open>
  Claim C2.  The claim asks, for a remove event matching a token mapping, for both the
  token-detach call and the device-cgroup deny.  In scenario S1, after the add event, the
  remove event with the same major and minor yields the token-detach call and the log line
  "Denied access to unbound device node", but no device-cgroup deny: the deny sits in the
  else branch of the test for the token kind.
\<close>

theorem token_remove_detaches_without_deny:
  "hotplug_handle_usb_device s1_env {UEVENT_ACTION_REMOVE} s1_event s1_added =
     (False,
      [Logf LOGF_PRIO_INFO ''HOTPLUG USB TOKEN removed'',
       Container_token_detach 1,
       Logf LOGF_PRIO_INFO ''Denied access to unbound device node %d:%d mapped in container %s''],
      s1_added)"
  by (simp add: hotplug_handle_usb_device_def s1_added_proj s1_event_proj)

text \<open>The remove event passes the handler's test and matches the token mapping.\<close>

theorem token_remove_detaches_without_deny_witness:
  "\<not> (take 3 (uevent_event_get_subsystem s1_event) \<noteq> ''usb''
        \<or> take 10 (uevent_event_get_devtype s1_event) \<noteq> ''usb_device'')
   \<and> UEVENT_ACTION_REMOVE \<in> {UEVENT_ACTION_REMOVE}
   \<and> uevent_event_get_major s1_event = major (usbdev_mem s1_added 1)
   \<and> uevent_event_get_minor s1_event = minor (usbdev_mem s1_added 1)
   \<and> type (usbdev_mem s1_added 1) = HOTPLUG_USBDEV_TYPE_TOKEN
   \<and> filter is_device_deny
        (fst (snd (hotplug_handle_usb_device s1_env {UEVENT_ACTION_REMOVE} s1_event s1_added)))
       = []"
  using token_remove_detaches_without_deny
  by (simp add: s1_event_proj s1_added_proj)

subsection \<open>Registration of USB mappings\<close>

lemma token_serial_unique_snoc:
  assumes wf: "\<forall>m \<in> set l. map_usbdev m \<noteq> a"
    and uniq: "\<forall>m1 \<in> set l. \<forall>m2 \<in> set l.
        type (mem (map_usbdev m1)) = HOTPLUG_USBDEV_TYPE_TOKEN
        \<and> type (mem (map_usbdev m2)) = HOTPLUG_USBDEV_TYPE_TOKEN
        \<and> i_serial (mem (map_usbdev m1)) = i_serial (mem (map_usbdev m2))
        \<longrightarrow> map_container m1 = map_container m2"
  shows "(\<forall>m1 \<in> set (l @ [\<lparr>map_container = c, map_usbdev = a, map_assign = False\<rparr>]).
          \<forall>m2 \<in> set (l @ [\<lparr>map_container = c, map_usbdev = a, map_assign = False\<rparr>]).
        type ((mem(a := u)) (map_usbdev m1)) = HOTPLUG_USBDEV_TYPE_TOKEN
        \<and> type ((mem(a := u)) (map_usbdev m2)) = HOTPLUG_USBDEV_TYPE_TOKEN
        \<and> i_serial ((mem(a := u)) (map_usbdev m1)) = i_serial ((mem(a := u)) (map_usbdev m2))
        \<longrightarrow> map_container m1 = map_container m2)
     \<longleftrightarrow>
       (type u = HOTPLUG_USBDEV_TYPE_TOKEN \<longrightarrow>
          (\<forall>m \<in> set l. type (mem (map_usbdev m)) = HOTPLUG_USBDEV_TYPE_TOKEN
               \<and> i_serial (mem (map_usbdev m)) = i_serial u
               \<longrightarrow> map_container m = c))"
    (is "?lhs \<longleftrightarrow> ?rhs")
proof
  assume L: ?lhs
  show ?rhs
  proof (intro impI ballI)
    fix m
    assume tu: "type u = HOTPLUG_USBDEV_TYPE_TOKEN" and m: "m \<in> set l"
      and tm: "type (mem (map_usbdev m)) = HOTPLUG_USBDEV_TYPE_TOKEN
               \<and> i_serial (mem (map_usbdev m)) = i_serial u"
    from wf m have ne: "map_usbdev m \<noteq> a" by blast
    from L [rule_format, of m "\<lparr>map_container = c, map_usbdev = a, map_assign = False\<rparr>"]
    show "map_container m = c" using m ne tu tm by simp
  qed
next
  assume R: ?rhs
  show ?lhs
  proof (intro ballI impI)
    fix m1 m2
    assume m1: "m1 \<in> set (l @ [\<lparr>map_container = c, map_usbdev = a, map_assign = False\<rparr>])"
      and m2: "m2 \<in> set (l @ [\<lparr>map_container = c, map_usbdev = a, map_assign = False\<rparr>])"
      and h: "type ((mem(a := u)) (map_usbdev m1)) = HOTPLUG_USBDEV_TYPE_TOKEN
        \<and> type ((mem(a := u)) (map_usbdev m2)) = HOTPLUG_USBDEV_TYPE_TOKEN
        \<and> i_serial ((mem(a := u)) (map_usbdev m1)) = i_serial ((mem(a := u)) (map_usbdev m2))"
    consider (oo) "m1 \<in> set l" "m2 \<in> set l"
      | (on) "m1 \<in> set l" "m2 = \<lparr>map_container = c, map_usbdev = a, map_assign = False\<rparr>"
      | (no) "m1 = \<lparr>map_container = c, map_usbdev = a, map_assign = False\<rparr>" "m2 \<in> set l"
      | (nn) "m1 = \<lparr>map_container = c, map_usbdev = a, map_assign = False\<rparr>"
             "m2 = \<lparr>map_container = c, map_usbdev = a, map_assign = False\<rparr>"
      using m1 m2 by auto
    then show "map_container m1 = map_container m2"
    proof cases
      case oo
      with wf have "map_usbdev m1 \<noteq> a" "map_usbdev m2 \<noteq> a" by blast+
      with h uniq [rule_format, of m1 m2] oo show ?thesis by simp
    next
      case on
      with wf have "map_usbdev m1 \<noteq> a" by blast
      with h R [rule_format, of m1] on show ?thesis by simp
    next
      case no
      with wf have "map_usbdev m2 \<noteq> a" by blast
      with h R [rule_format, of m2] no show ?thesis by simp
    next
      case nn
      then show ?thesis by simp
    qed
  qed
qed

text \<open>
  Claim C8, as amended.  \<^verbatim>\<open>hotplug_register_usbdevice\<close> looks nothing up: it always
  returns 0 and appends the new mapping.  Starting from a registry in which token mappings
  with one serial belong to one compartment, the registry after the call has this property
  if and only if the registered handle is not of kind token or every token mapping already
  registered with its serial belongs to the same compartment.
\<close>

theorem register_usbdevice_keeps_token_serial_unique:
  assumes "registry_wf s" and "token_serial_unique s"
  shows "fst (hotplug_register_usbdevice c usbdev s) = 0
     \<and> hotplug_container_dev_mapping_list (snd (snd (hotplug_register_usbdevice c usbdev s))) =
         hotplug_container_dev_mapping_list s @
           [\<lparr>map_container = c, map_usbdev = usbdev_brk s, map_assign = False\<rparr>]
     \<and> (token_serial_unique (snd (snd (hotplug_register_usbdevice c usbdev s))) \<longleftrightarrow>
          (type (usbdev_mem s usbdev) = HOTPLUG_USBDEV_TYPE_TOKEN \<longrightarrow>
            (\<forall>m \<in> set (hotplug_container_dev_mapping_list s).
               type (usbdev_mem s (map_usbdev m)) = HOTPLUG_USBDEV_TYPE_TOKEN
               \<and> i_serial (usbdev_mem s (map_usbdev m)) = i_serial (usbdev_mem s usbdev)
               \<longrightarrow> map_container m = c)))"
proof -
  let ?l = "hotplug_container_dev_mapping_list s"
  have wf: "\<forall>m \<in> set ?l. map_usbdev m \<noteq> usbdev_brk s"
    using assms(1) by (auto simp add: registry_wf_def)
  have uniq: "\<forall>m1 \<in> set ?l. \<forall>m2 \<in> set ?l.
        type (usbdev_mem s (map_usbdev m1)) = HOTPLUG_USBDEV_TYPE_TOKEN
        \<and> type (usbdev_mem s (map_usbdev m2)) = HOTPLUG_USBDEV_TYPE_TOKEN
        \<and> i_serial (usbdev_mem s (map_usbdev m1)) = i_serial (usbdev_mem s (map_usbdev m2))
        \<longrightarrow> map_container m1 = map_container m2"
    using assms(2) unfolding token_serial_unique_def .
  have inv: "token_serial_unique (snd (snd (hotplug_register_usbdevice c usbdev s))) \<longleftrightarrow>
          (type (usbdev_mem s usbdev) = HOTPLUG_USBDEV_TYPE_TOKEN \<longrightarrow>
            (\<forall>m \<in> set (hotplug_container_dev_mapping_list s).
               type (usbdev_mem s (map_usbdev m)) = HOTPLUG_USBDEV_TYPE_TOKEN
               \<and> i_serial (usbdev_mem s (map_usbdev m)) = i_serial (usbdev_mem s usbdev)
               \<longrightarrow> map_container m = c))"
    unfolding token_serial_unique_def register_usbdevice_proj
    by (rule token_serial_unique_snoc [OF wf uniq])
  show ?thesis
    by (intro conjI) (rule register_usbdevice_proj(1), rule register_usbdevice_proj(4), rule inv)
qed

lemma two_tokens_handles_proj:
  "usbdev_brk two_tokens_handles = 2"
  "hotplug_container_dev_mapping_list two_tokens_handles = []"
  "usbdev_mem two_tokens_handles 0 =
     \<lparr>i_serial = ''0001'', id_vendor = 0x1050, id_product = 0x0407, major = - 1, minor = - 1,
      assign = False, type = HOTPLUG_USBDEV_TYPE_TOKEN\<rparr>"
  "usbdev_mem two_tokens_handles (Suc 0) =
     \<lparr>i_serial = ''0001'', id_vendor = 0x1050, id_product = 0x0407, major = - 1, minor = - 1,
      assign = False, type = HOTPLUG_USBDEV_TYPE_TOKEN\<rparr>"
  by (simp_all add: two_tokens_handles_def usb_proj)

lemma two_tokens_first_proj:
  "usbdev_brk two_tokens_first = 3"
  "hotplug_container_dev_mapping_list two_tokens_first =
     [\<lparr>map_container = 1, map_usbdev = 2, map_assign = False\<rparr>]"
  "usbdev_mem two_tokens_first (Suc 0) =
     \<lparr>i_serial = ''0001'', id_vendor = 0x1050, id_product = 0x0407, major = - 1, minor = - 1,
      assign = False, type = HOTPLUG_USBDEV_TYPE_TOKEN\<rparr>"
  "usbdev_mem two_tokens_first 2 =
     \<lparr>i_serial = ''0001'', id_vendor = 0x1050, id_product = 0x0407, major = - 1, minor = - 1,
      assign = False, type = HOTPLUG_USBDEV_TYPE_TOKEN\<rparr>"
  by (simp_all add: two_tokens_first_def register_usbdevice_proj two_tokens_handles_proj)

lemma two_tokens_second_proj:
  "hotplug_container_dev_mapping_list two_tokens_second =
     [\<lparr>map_container = 1, map_usbdev = 2, map_assign = False\<rparr>,
      \<lparr>map_container = 2, map_usbdev = 3, map_assign = False\<rparr>]"
  "usbdev_mem two_tokens_second 2 =
     \<lparr>i_serial = ''0001'', id_vendor = 0x1050, id_product = 0x0407, major = - 1, minor = - 1,
      assign = False, type = HOTPLUG_USBDEV_TYPE_TOKEN\<rparr>"
  "usbdev_mem two_tokens_second 3 =
     \<lparr>i_serial = ''0001'', id_vendor = 0x1050, id_product = 0x0407, major = - 1, minor = - 1,
      assign = False, type = HOTPLUG_USBDEV_TYPE_TOKEN\<rparr>"
  by (simp_all add: two_tokens_second_def register_usbdevice_proj two_tokens_first_proj)

text \<open>Registering the first of two token handles for compartment 1 keeps the property.\<close>

theorem register_usbdevice_keeps_token_serial_unique_witness:
  "registry_wf two_tokens_handles \<and> token_serial_unique two_tokens_handles
   \<and> fst (hotplug_register_usbdevice 1 0 two_tokens_handles) = 0
   \<and> token_serial_unique two_tokens_first"
proof -
  have a: "registry_wf two_tokens_handles"
    by (simp add: registry_wf_def two_tokens_handles_proj)
  have b: "token_serial_unique two_tokens_handles"
    by (simp add: token_serial_unique_def two_tokens_handles_proj)
  show ?thesis
    using register_usbdevice_keeps_token_serial_unique [OF a b, of 1 0]
    by (simp add: a b two_tokens_handles_proj two_tokens_first_def)
qed

text \<open>
  Claim C8 as stated fails: after the second handle, with the same serial, is registered for
  compartment 2, two compartments hold a token mapping with the serial 0001.
\<close>

theorem token_serial_unique_counterexample:
  "\<not> token_serial_unique two_tokens_second"
  by (simp add: token_serial_unique_def two_tokens_second_proj)

lemma usb_remove_loop_unenriched:
  assumes "0 \<le> uevent_event_get_major event" and "0 \<le> uevent_event_get_minor event"
  shows "usb_remove_loop event mem l =
         usb_remove_loop event mem
           (filter (\<lambda>m. \<not> (major (mem (map_usbdev m)) = - 1 \<and> minor (mem (map_usbdev m)) = - 1)) l)"
  using assms by (induction l) (auto simp add: Let_def)

text \<open>
  Claim C10, as amended.  A registered mapping owns a new object that holds the fields of the
  caller's handle as they are when it is registered: its major and minor are those of the
  handle, which are \<open>- 1\<close> for a handle as \<^verbatim>\<open>hotplug_usbdev_new\<close> returns it.  The
  object lies at a new address, so setting major or minor of the caller's handle afterwards
  leaves it as it is.  A remove event with nonnegative major and minor issues exactly the
  calls it would issue on the registry without the mappings whose major and minor are both
  \<open>- 1\<close>.
\<close>

theorem register_usbdevice_copies_handle:
  assumes "usbdev < usbdev_brk s"
    and "0 \<le> uevent_event_get_major event" and "0 \<le> uevent_event_get_minor event"
  shows "hotplug_container_dev_mapping_list (snd (snd (hotplug_register_usbdevice c usbdev s))) =
           hotplug_container_dev_mapping_list s @
             [\<lparr>map_container = c, map_usbdev = usbdev_brk s, map_assign = False\<rparr>]
     \<and> usbdev_brk s \<noteq> usbdev
     \<and> usbdev_mem (snd (snd (hotplug_register_usbdevice c usbdev s))) (usbdev_brk s) =
           usbdev_mem s usbdev
     \<and> usbdev_mem (hotplug_usbdev_set_major usbdev mj
                      (snd (snd (hotplug_register_usbdevice c usbdev s)))) (usbdev_brk s) =
           usbdev_mem s usbdev
     \<and> usbdev_mem (hotplug_usbdev_set_minor usbdev mn
                      (snd (snd (hotplug_register_usbdevice c usbdev s)))) (usbdev_brk s) =
           usbdev_mem s usbdev
     \<and> major (usbdev_mem (snd (hotplug_usbdev_new ty vendor product serial asg s))
                (fst (hotplug_usbdev_new ty vendor product serial asg s))) = - 1
     \<and> minor (usbdev_mem (snd (hotplug_usbdev_new ty vendor product serial asg s))
                (fst (hotplug_usbdev_new ty vendor product serial asg s))) = - 1
     \<and> usb_remove_loop event mem l =
         usb_remove_loop event mem
           (filter (\<lambda>m. \<not> (major (mem (map_usbdev m)) = - 1 \<and> minor (mem (map_usbdev m)) = - 1)) l)"
proof -
  have ne: "usbdev_brk s \<noteq> usbdev" using assms(1) by simp
  have ne': "usbdev \<noteq> usbdev_brk s" using assms(1) by simp
  show ?thesis
    using ne ne' usb_remove_loop_unenriched [OF assms(2,3), of mem l]
    by (simp add: usb_proj)
qed

lemma preset_handle_proj:
  "usbdev_brk preset_handle = Suc 0"
  "hotplug_container_dev_mapping_list preset_handle = []"
  "usbdev_mem preset_handle 0 =
     \<lparr>i_serial = ''0001'', id_vendor = 0x1050, id_product = 0x0407, major = 189, minor = 3,
      assign = False, type = HOTPLUG_USBDEV_TYPE_GENERIC\<rparr>"
  by (simp_all add: preset_handle_def usb_proj)

lemma preset_registered_proj:
  "hotplug_container_dev_mapping_list preset_registered =
     [\<lparr>map_container = 1, map_usbdev = Suc 0, map_assign = False\<rparr>]"
  "usbdev_mem preset_registered (Suc 0) =
     \<lparr>i_serial = ''0001'', id_vendor = 0x1050, id_product = 0x0407, major = 189, minor = 3,
      assign = False, type = HOTPLUG_USBDEV_TYPE_GENERIC\<rparr>"
  by (simp_all add: preset_registered_def register_usbdevice_proj preset_handle_proj)

text \<open>
  A handle with major and minor set keeps its copy when major is set again after the
  registration; the remove event of S1 does nothing on the registry of S1 before the add.
\<close>

theorem register_usbdevice_copies_handle_witness:
  "(0::nat) < usbdev_brk preset_handle
   \<and> 0 \<le> uevent_event_get_major s1_event \<and> 0 \<le> uevent_event_get_minor s1_event
   \<and> usbdev_mem preset_registered 1 = usbdev_mem preset_handle 0
   \<and> usbdev_mem (hotplug_usbdev_set_major 0 7 preset_registered) 1 = usbdev_mem preset_handle 0
   \<and> usb_remove_loop s1_event (usbdev_mem s1_registered)
        (hotplug_container_dev_mapping_list s1_registered) = []"
proof -
  have a: "(0::nat) < usbdev_brk preset_handle" by (simp add: preset_handle_proj)
  have b: "0 \<le> uevent_event_get_major s1_event" by (simp add: s1_event_proj)
  have c: "0 \<le> uevent_event_get_minor s1_event" by (simp add: s1_event_proj)
  show ?thesis
    using register_usbdevice_copies_handle [OF a b c, of 1 7 0 HOTPLUG_USBDEV_TYPE_GENERIC 0 0 "[]"
        False "usbdev_mem s1_registered" "hotplug_container_dev_mapping_list s1_registered"]
    by (simp add: a b c preset_handle_proj preset_registered_def s1_registered_proj)
qed

text \<open>
  Claim C10 as stated fails: a handle whose major and minor were set to 189:3 before it is
  registered gives a mapping with 189:3 that no add event has enriched, and a remove event
  for 189:3 issues a device-cgroup deny on its compartment.
\<close>

theorem fresh_mapping_unenriched_counterexample:
  "major (usbdev_mem preset_registered 1) = 189
   \<and> minor (usbdev_mem preset_registered 1) = 3
   \<and> fst (snd (hotplug_handle_usb_device s1_env {UEVENT_ACTION_REMOVE} s1_event
                  preset_registered)) =
       [Container_device_deny 1 CHR ''c'' 189 3,
        Logf LOGF_PRIO_INFO
          ''Denied access to unbound device node %d:%d mapped in container %s'']"
  by (simp add: hotplug_handle_usb_device_def preset_registered_proj s1_event_proj)

subsection \<open>The token timer\<close>

lemma token_timer_cb_retries:
  "retries (snd (snd (hotplug_token_timer_cb env td s))) = retries s - 1"
  by (simp add: hotplug_token_timer_cb_def Let_def)

lemma token_timer_run_one:
  "token_timer_run [env] td s =
     (fst (snd (hotplug_token_timer_cb env td s)), snd (snd (hotplug_token_timer_cb env td s)))"
  by (simp add: split_beta)

lemma token_attach_cycles_retries:
  "retries (token_attach_cycles k s) = retries s - int k"
  by (induction k arbitrary: s)
    (simp_all add: token_timer_run_one token_timer_cb_retries del: token_timer_run.simps)

lemma s1_node_exists: "file_exists s1_env_node (td_devname s1_token_data)"
  by (simp add: s1_env_node_def s1_token_data_def token_devname_def s1_event_def)

text \<open>
  Claim C5.  The claim gives every token add event a budget of its own.  The counter is a
  static of the callback, shared by all timers and never reset: the first timer of the
  daemon, whose node exists, attaches the token; after eleven timers that each attached
  their token at the first firing the counter is \<open>- 1\<close>, and the timer of the next add
  event frees its closure and removes itself at its first firing without attaching the
  token, although the device node exists.
\<close>

theorem token_timer_budget_shared:
  "fst (token_timer_run [s1_env_node] s1_token_data hotplug_state_init) =
     [Container_token_attach 1,
      Logf LOGF_PRIO_INFO ''Processed token attachment of token %s for container %s'',
      Mem_free0_token_data s1_token_data, Event_remove_timer, Event_timer_free]
   \<and> retries (token_attach_cycles 11 hotplug_state_init) = - 1
   \<and> fst (token_timer_run [s1_env_node] s1_token_data
            (token_attach_cycles 11 hotplug_state_init)) =
     [Mem_free0_token_data s1_token_data, Event_remove_timer, Event_timer_free]"
proof -
  have r0: "retries hotplug_state_init = 10" by (simp add: hotplug_state_init_def)
  have r11: "retries (token_attach_cycles 11 hotplug_state_init) = - 1"
    by (simp add: token_attach_cycles_retries r0)
  have c: "td_container s1_token_data = 1" by (simp add: s1_token_data_def)
  show ?thesis
    by (simp add: token_timer_run_one hotplug_token_timer_cb_def Let_def r0 r11 s1_node_exists c
        del: token_timer_run.simps)
qed

text \<open>The node exists in both runs; only the counter differs.\<close>

theorem token_timer_budget_shared_witness:
  "file_exists s1_env_node (td_devname s1_token_data)
   \<and> \<not> 0 > retries hotplug_state_init
   \<and> 0 > retries (token_attach_cycles 11 hotplug_state_init)
   \<and> Container_token_attach 1 \<in>
        set (fst (token_timer_run [s1_env_node] s1_token_data hotplug_state_init))
   \<and> Container_token_attach 1 \<notin>
        set (fst (token_timer_run [s1_env_node] s1_token_data
                    (token_attach_cycles 11 hotplug_state_init)))"
  using token_timer_budget_shared
  by (simp add: s1_node_exists hotplug_state_init_def)

subsection \<open>Registration of net mappings\<close>

text \<open>
  Claim C9.  Where the name of the configuration does not parse as a MAC address,
  \<^verbatim>\<open>hotplug_register_netdev\<close> returns -1 and the state, hence the registry of net
  mappings, is as before; where it parses, the call returns 0 and appends a mapping that
  holds the parsed address.
\<close>

theorem register_netdev_parses_mac:
  "(network_str_to_mac_addr env (pnet_name (pnet_cfg_mem s pnet_cfg)) = None \<longrightarrow>
      hotplug_register_netdev env c pnet_cfg s = (- 1, [], s))
   \<and> (\<forall>mac. network_str_to_mac_addr env (pnet_name (pnet_cfg_mem s pnet_cfg)) = Some mac \<longrightarrow>
      fst (hotplug_register_netdev env c pnet_cfg s) = 0
      \<and> hotplug_container_netdev_mapping_list (snd (snd (hotplug_register_netdev env c pnet_cfg s)))
          = hotplug_container_netdev_mapping_list s
            @ [\<lparr>net_container = c, net_pnet_cfg = pnet_cfg, net_mac = mac\<rparr>])"
  by (simp add: hotplug_register_netdev_def hotplug_container_netdev_mapping_new_def)

lemma s2_cfgs_proj:
  "pnet_cfg_brk s2_cfgs = 2"
  "hotplug_container_netdev_mapping_list s2_cfgs = []"
  "pnet_cfg_mem s2_cfgs 0 =
     \<lparr>pnet_name = ''02:00:00:00:00:01'', mac_filter = False, mac_whitelist = []\<rparr>"
  "pnet_cfg_mem s2_cfgs (Suc 0) = \<lparr>pnet_name = ''eth7'', mac_filter = False, mac_whitelist = []\<rparr>"
  by (simp_all add: s2_cfgs_def container_pnet_cfg_new_def hotplug_state_init_def)

lemma s2_env_mac:
  "network_str_to_mac_addr s2_env n =
     (if n = ''02:00:00:00:00:01'' then Some [2, 0, 0, 0, 0, 1] else None)"
  by (simp add: s2_env_def env_quiet_def)

text \<open>The configuration named eth7 is refused, the one named by the MAC string is stored.\<close>

theorem register_netdev_parses_mac_witness:
  "network_str_to_mac_addr s2_env (pnet_name (pnet_cfg_mem s2_cfgs 1)) = None
   \<and> hotplug_register_netdev s2_env 2 1 s2_cfgs = (- 1, [], s2_cfgs)
   \<and> network_str_to_mac_addr s2_env (pnet_name (pnet_cfg_mem s2_cfgs 0)) = Some [2, 0, 0, 0, 0, 1]
   \<and> fst (hotplug_register_netdev s2_env 2 0 s2_cfgs) = 0
   \<and> hotplug_container_netdev_mapping_list (snd (snd (hotplug_register_netdev s2_env 2 0 s2_cfgs)))
       = [\<lparr>net_container = 2, net_pnet_cfg = 0, net_mac = [2, 0, 0, 0, 0, 1]\<rparr>]"
  using register_netdev_parses_mac [of s2_env s2_cfgs 1 2]
    register_netdev_parses_mac [of s2_env s2_cfgs 0 2]
  by (simp add: s2_cfgs_proj s2_env_mac)

subsection \<open>Names of renamed interfaces\<close>





lemma dec_of_int_small:
  "dec_of_int 0 = ''0''"
  "dec_of_int 1 = ''1''"
  by (simp_all add: dec_of_int_def dec_of_nat.simps)



lemma s2_env_proj:
  "asprintf_ok s2_env"
  "network_rename_ifi s2_env a b = 0"
  "cmld_netif_phys_remove_by_name s2_env a = False"
  "network_get_mac_by_ifname s2_env n = (if n = ''eth7'' then Some [2, 0, 0, 0, 0, 1] else None)"
  "container_get_state s2_env c = COMPARTMENT_STATE_BOOTING"
  "cmld_containers_get_c0 s2_env = None"
  "cmld_container_add_net_iface s2_env c cfg f = 0"
  "uevent_event_inject_into_netns s2_env e c = 0"
  "uevent_replace_member s2_env e old new =
     Some (e\<lparr>uevent_event_get_interface :=
                (if uevent_event_get_interface e = old then new
                 else uevent_event_get_interface e),
              uevent_event_get_devpath :=
                (if uevent_event_get_devpath e = old then new
                 else uevent_event_get_devpath e)\<rparr>)"
  by (simp_all add: s2_env_def env_quiet_def)







subsection \<open>Moving a physical interface\<close>

lemma rename_ifi_new_frame:
  "pnet_cfg_mem (snd (snd (hotplug_rename_ifi_new env oldname f s))) = pnet_cfg_mem s"
  "pnet_cfg_brk (snd (snd (hotplug_rename_ifi_new env oldname f s))) = pnet_cfg_brk s"
  "hotplug_container_netdev_mapping_list (snd (snd (hotplug_rename_ifi_new env oldname f s)))
     = hotplug_container_netdev_mapping_list s"
  "filter is_add_net_iface (fst (snd (hotplug_rename_ifi_new env oldname f s))) = []"
  "filter is_inject (fst (snd (hotplug_rename_ifi_new env oldname f s))) = []"
  by (simp_all add: hotplug_rename_ifi_new_def Let_def)

lemma rename_interface_state:
  "snd (snd (hotplug_rename_interface env event s)) =
     snd (snd (hotplug_rename_ifi_new env (uevent_event_get_interface event)
       (if uevent_event_get_devtype event = [] then ''eth'' else uevent_event_get_devtype event) s))"
  by (simp add: hotplug_rename_interface_def Let_def split: prod.splits option.splits)

lemma rename_interface_frame:
  "pnet_cfg_mem (snd (snd (hotplug_rename_interface env event s))) = pnet_cfg_mem s"
  "pnet_cfg_brk (snd (snd (hotplug_rename_interface env event s))) = pnet_cfg_brk s"
  "hotplug_container_netdev_mapping_list (snd (snd (hotplug_rename_interface env event s)))
     = hotplug_container_netdev_mapping_list s"
  by (simp_all only: rename_interface_state rename_ifi_new_frame)

lemma rename_interface_effects:
  "filter is_add_net_iface (fst (snd (hotplug_rename_interface env event s))) = []"
  "filter is_inject (fst (snd (hotplug_rename_interface env event s))) = []"
proof -
  let ?r = "hotplug_rename_ifi_new env (uevent_event_get_interface event)
       (if uevent_event_get_devtype event = [] then ''eth'' else uevent_event_get_devtype event) s"
  have a: "filter is_add_net_iface (fst (snd ?r)) = []" by (rule rename_ifi_new_frame)
  have b: "filter is_inject (fst (snd ?r)) = []" by (rule rename_ifi_new_frame)
  obtain n e s1 where r: "?r = (n, e, s1)" by (cases ?r)
  from a b r have e: "filter is_add_net_iface e = []" "filter is_inject e = []" by simp_all
  show "filter is_add_net_iface (fst (snd (hotplug_rename_interface env event s))) = []"
    using r e by (simp add: hotplug_rename_interface_def Let_def split: option.splits)
  show "filter is_inject (fst (snd (hotplug_rename_interface env event s))) = []"
    using r e by (simp add: hotplug_rename_interface_def Let_def split: option.splits)
qed

lemma netdev_move_mapped:
  assumes "network_get_mac_by_ifname env (uevent_event_get_interface event) = Some iface_mac"
    and "netdev_mapping_lookup iface_mac (hotplug_container_netdev_mapping_list s) = Some mapping"
  shows "hotplug_netdev_move env event s =
     (if \<not> container_accepts_netdev env (net_container mapping)
      then (- 1,
            [Logf LOGF_PRIO_WARN ''Target container '%s' is not running, skip moving %s''], s)
      else netdev_move_tail env event (net_container mapping) (net_pnet_cfg mapping) [] s)"
  using assms by (simp add: hotplug_netdev_move_def netdev_move_tail_def)

lemma netdev_move_c0:
  assumes "network_get_mac_by_ifname env (uevent_event_get_interface event) = Some iface_mac"
    and "netdev_mapping_lookup iface_mac (hotplug_container_netdev_mapping_list s) = None"
    and "cmld_containers_get_c0 env = Some c"
  shows "hotplug_netdev_move env event s =
     (if \<not> container_accepts_netdev env c
      then (- 1,
            [Logf LOGF_PRIO_WARN ''Target container '%s' is not running, skip moving %s'',
             Mem_free0_pnet_cfg (pnet_cfg_brk s)],
            snd (container_pnet_cfg_new (uevent_event_get_interface event) False [] s))
      else netdev_move_tail env event c (pnet_cfg_brk s) [Mem_free0_pnet_cfg (pnet_cfg_brk s)]
             (snd (container_pnet_cfg_new (uevent_event_get_interface event) False [] s)))"
  using assms
  by (simp add: hotplug_netdev_move_def netdev_move_tail_def container_pnet_cfg_new_def)

lemma move_tail_props:
  fixes env event s1 a
  defines "cfg \<equiv> netdev_final_cfg env event s1 a"
  assumes cl: "filter is_add_net_iface cleanup = []" "filter is_inject cleanup = []"
  shows "filter is_add_net_iface (fst (snd (netdev_move_tail env event c a cleanup s1))) =
           [Cmld_container_add_net_iface c a cfg False]"
    and "fst (netdev_move_tail env event c a cleanup s1) =
           (if cmld_container_add_net_iface env c cfg False \<noteq> 0 then - 1 else 0)"
    and "fst (netdev_move_tail env event c a cleanup s1) = 0 \<Longrightarrow>
         filter is_inject (fst (snd (netdev_move_tail env event c a cleanup s1))) =
           (if mac_filter (pnet_cfg_mem s1 a) then []
            else [Uevent_event_inject_into_netns (netdev_final_event env event s1) c])"
proof -
  obtain newevent e1 s2 where r: "hotplug_rename_interface env event s1 = (newevent, e1, s2)"
    by (cases "hotplug_rename_interface env event s1")
  have mem: "pnet_cfg_mem s2 = pnet_cfg_mem s1"
    using rename_interface_frame(1) [of env event s1] by (simp add: r)
  have e1: "filter is_add_net_iface e1 = []" "filter is_inject e1 = []"
    using rename_interface_effects [of env event s1] by (simp_all add: r)
  show "filter is_add_net_iface (fst (snd (netdev_move_tail env event c a cleanup s1))) =
           [Cmld_container_add_net_iface c a cfg False]"
    by (cases newevent)
      (simp_all add: netdev_move_tail_def r mem e1 cl cfg_def netdev_final_cfg_def netdev_final_name_def
        container_pnet_cfg_set_pnet_name_def Let_def)
  show "fst (netdev_move_tail env event c a cleanup s1) =
           (if cmld_container_add_net_iface env c cfg False \<noteq> 0 then - 1 else 0)"
    by (cases newevent)
      (simp_all add: netdev_move_tail_def r mem cfg_def netdev_final_cfg_def netdev_final_name_def
        container_pnet_cfg_set_pnet_name_def Let_def)
  show "filter is_inject (fst (snd (netdev_move_tail env event c a cleanup s1))) =
           (if mac_filter (pnet_cfg_mem s1 a) then []
            else [Uevent_event_inject_into_netns (netdev_final_event env event s1) c])"
    if "fst (netdev_move_tail env event c a cleanup s1) = 0"
    using that
    by (cases newevent)
      (simp_all add: netdev_move_tail_def r mem e1 cl netdev_final_event_def
        container_pnet_cfg_set_pnet_name_def Let_def split: if_splits)
qed

lemma accepts_iff:
  "container_accepts_netdev env c \<longleftrightarrow>
     container_get_state env c \<in>
       {COMPARTMENT_STATE_STARTING, COMPARTMENT_STATE_BOOTING, COMPARTMENT_STATE_RUNNING}"
  by (auto simp add: container_accepts_netdev_def)

lemma pnet_cfg_new_proj:
  "hotplug_container_netdev_mapping_list (snd (container_pnet_cfg_new n f w s)) =
     hotplug_container_netdev_mapping_list s"
  "cmld_wlan_idx (snd (container_pnet_cfg_new n f w s)) = cmld_wlan_idx s"
  "cmld_eth_idx (snd (container_pnet_cfg_new n f w s)) = cmld_eth_idx s"
  "pnet_cfg_mem (snd (container_pnet_cfg_new n f w s)) (pnet_cfg_brk s) =
     \<lparr>pnet_name = n, mac_filter = f, mac_whitelist = w\<rparr>"
  by (simp_all add: container_pnet_cfg_new_def)

text \<open>
  Claim C3.  Where the MAC of the interface can be read and the target compartment (the one
  of the first mapping with that MAC, the default compartment where no mapping has it) is
  in none of the states STARTING, BOOTING and RUNNING, \<^verbatim>\<open>hotplug_netdev_move\<close> returns
  -1 and all it does is to warn and to free the configuration it made for the default
  compartment: no rename, no move and no injection; the registry and the rename counters
  stay as they are.
\<close>

theorem netdev_move_refused_unless_running:
  assumes "network_get_mac_by_ifname env (uevent_event_get_interface event) = Some iface_mac"
    and "(case netdev_mapping_lookup iface_mac (hotplug_container_netdev_mapping_list s) of
            Some mapping \<Rightarrow> Some (net_container mapping)
          | None \<Rightarrow> cmld_containers_get_c0 env) = Some c"
    and "container_get_state env c \<notin>
           {COMPARTMENT_STATE_STARTING, COMPARTMENT_STATE_BOOTING, COMPARTMENT_STATE_RUNNING}"
  shows "fst (hotplug_netdev_move env event s) = - 1
     \<and> fst (snd (hotplug_netdev_move env event s)) =
         Logf LOGF_PRIO_WARN ''Target container '%s' is not running, skip moving %s''
         # (case netdev_mapping_lookup iface_mac (hotplug_container_netdev_mapping_list s) of
              Some mapping \<Rightarrow> []
            | None \<Rightarrow> [Mem_free0_pnet_cfg (pnet_cfg_brk s)])
     \<and> hotplug_container_netdev_mapping_list (snd (snd (hotplug_netdev_move env event s))) =
         hotplug_container_netdev_mapping_list s
     \<and> cmld_wlan_idx (snd (snd (hotplug_netdev_move env event s))) = cmld_wlan_idx s
     \<and> cmld_eth_idx (snd (snd (hotplug_netdev_move env event s))) = cmld_eth_idx s"
proof (cases "netdev_mapping_lookup iface_mac (hotplug_container_netdev_mapping_list s)")
  case None
  with assms(2) have c0: "cmld_containers_get_c0 env = Some c" by simp
  have na: "\<not> container_accepts_netdev env c" using assms(3) by (simp add: accepts_iff)
  show ?thesis
    unfolding netdev_move_c0 [OF assms(1) None c0]
    using na by (simp add: None pnet_cfg_new_proj)
next
  case (Some mapping)
  with assms(2) have c: "net_container mapping = c" by simp
  have na: "\<not> container_accepts_netdev env (net_container mapping)"
    using assms(3) unfolding c by (simp add: accepts_iff)
  show ?thesis
    unfolding netdev_move_mapped [OF assms(1) Some]
    using na by (simp add: Some)
qed

text \<open>
  Claim C6.  Where the MAC of the interface matches no mapping, the default compartment
  exists and is in one of the states STARTING, BOOTING and RUNNING, the one move the
  function requests is into the default compartment, under the configuration it has just
  allocated (at the next unused address), named after the interface (after its new name
  where the rename succeeded), without MAC filter; the function returns 0 exactly when the
  network module accepts that request, and it then injects the uevent into the default
  compartment.
\<close>

theorem netdev_move_unmatched_to_c0:
  assumes "network_get_mac_by_ifname env (uevent_event_get_interface event) = Some iface_mac"
    and "netdev_mapping_lookup iface_mac (hotplug_container_netdev_mapping_list s) = None"
    and "cmld_containers_get_c0 env = Some c0"
    and "container_get_state env c0 \<in>
           {COMPARTMENT_STATE_STARTING, COMPARTMENT_STATE_BOOTING, COMPARTMENT_STATE_RUNNING}"
  shows "filter is_add_net_iface (fst (snd (hotplug_netdev_move env event s))) =
           [Cmld_container_add_net_iface c0 (pnet_cfg_brk s)
              \<lparr>pnet_name =
                 netdev_final_name env event
                   (snd (container_pnet_cfg_new (uevent_event_get_interface event) False [] s))
                   (uevent_event_get_interface event),
               mac_filter = False, mac_whitelist = []\<rparr>
              False]
     \<and> (fst (hotplug_netdev_move env event s) = 0 \<longleftrightarrow>
          cmld_container_add_net_iface env c0
            \<lparr>pnet_name =
               netdev_final_name env event
                 (snd (container_pnet_cfg_new (uevent_event_get_interface event) False [] s))
                 (uevent_event_get_interface event),
             mac_filter = False, mac_whitelist = []\<rparr>
            False = 0)
     \<and> (fst (hotplug_netdev_move env event s) = 0 \<longrightarrow>
          filter is_inject (fst (snd (hotplug_netdev_move env event s))) =
            [Uevent_event_inject_into_netns
               (netdev_final_event env event
                  (snd (container_pnet_cfg_new (uevent_event_get_interface event) False [] s)))
               c0])"
proof -
  let ?s0 = "snd (container_pnet_cfg_new (uevent_event_get_interface event) False [] s)"
  have acc: "container_accepts_netdev env c0" using assms(4) by (simp add: accepts_iff)
  have mv: "hotplug_netdev_move env event s =
      netdev_move_tail env event c0 (pnet_cfg_brk s) [Mem_free0_pnet_cfg (pnet_cfg_brk s)] ?s0"
    unfolding netdev_move_c0 [OF assms(1-3)] using acc by simp
  have cl: "filter is_add_net_iface [Mem_free0_pnet_cfg (pnet_cfg_brk s)] = []"
    "filter is_inject [Mem_free0_pnet_cfg (pnet_cfg_brk s)] = []" by simp_all
  have cfg: "netdev_final_cfg env event ?s0 (pnet_cfg_brk s) =
      \<lparr>pnet_name = netdev_final_name env event ?s0 (uevent_event_get_interface event),
       mac_filter = False, mac_whitelist = []\<rparr>"
    by (simp add: netdev_final_cfg_def pnet_cfg_new_proj)
  have flt: "\<not> mac_filter (pnet_cfg_mem ?s0 (pnet_cfg_brk s))"
    by (simp add: pnet_cfg_new_proj)
  show ?thesis
    unfolding mv
    using move_tail_props [OF cl, where env = env and event = event and c = c0
        and a = "pnet_cfg_brk s" and ?s1.0 = "?s0"]
    by (simp add: cfg flt)
qed

text \<open>
  Claim C7.  Where the interface was moved into the compartment of a matched mapping (the
  function returns 0), the function tries no injection if the configuration of the mapping
  has the MAC-filter flag, and otherwise exactly one: of the renamed uevent (the original
  one where the rename failed) into that compartment.
\<close>

theorem netdev_move_injects_unless_bridged:
  assumes "network_get_mac_by_ifname env (uevent_event_get_interface event) = Some iface_mac"
    and "netdev_mapping_lookup iface_mac (hotplug_container_netdev_mapping_list s) = Some mapping"
    and "fst (hotplug_netdev_move env event s) = 0"
  shows "filter is_inject (fst (snd (hotplug_netdev_move env event s))) =
           (if mac_filter (pnet_cfg_mem s (net_pnet_cfg mapping)) then []
            else [Uevent_event_inject_into_netns (netdev_final_event env event s)
                    (net_container mapping)])"
proof -
  have mv: "hotplug_netdev_move env event s =
      netdev_move_tail env event (net_container mapping) (net_pnet_cfg mapping) [] s"
    using assms(3) unfolding netdev_move_mapped [OF assms(1,2)] by (simp split: if_splits)
  have cl: "filter is_add_net_iface [] = []" "filter is_inject [] = []" by simp_all
  show ?thesis
    using assms(3) unfolding mv
    by (rule move_tail_props(3) [OF cl])
qed


lemma s2_event_proj:
  "uevent_event_get_interface s2_event = ''eth7''"
  "uevent_event_get_devtype s2_event = []"
  "uevent_event_get_devpath s2_event = ''/devices/pci0/net/eth7''"
  by (simp_all add: s2_event_def)

lemma s2_registered_proj:
  "hotplug_container_netdev_mapping_list s2_registered =
     [\<lparr>net_container = 2, net_pnet_cfg = 0, net_mac = [2, 0, 0, 0, 0, 1]\<rparr>]"
  "pnet_cfg_mem s2_registered 0 =
     \<lparr>pnet_name = ''02:00:00:00:00:01'', mac_filter = False, mac_whitelist = []\<rparr>"
  "pnet_cfg_brk s2_registered = 2"
  "cmld_eth_idx s2_registered = 0"
  by (simp_all add: s2_registered_def hotplug_register_netdev_def
      hotplug_container_netdev_mapping_new_def s2_cfgs_proj s2_env_mac
      s2_cfgs_def container_pnet_cfg_new_def hotplug_state_init_def)

lemma s2_cfgs_idx: "cmld_eth_idx s2_cfgs = 0"
  by (simp add: s2_cfgs_def container_pnet_cfg_new_def hotplug_state_init_def)

lemma s2_env_variants:
  "network_get_mac_by_ifname s2_env_stopped n = network_get_mac_by_ifname s2_env n"
  "container_get_state s2_env_stopped c = COMPARTMENT_STATE_STOPPED"
  "cmld_containers_get_c0 s2_env_c0 = Some 0"
  "network_get_mac_by_ifname s2_env_c0 n = network_get_mac_by_ifname s2_env n"
  "container_get_state s2_env_c0 c = container_get_state s2_env c"
  "cmld_container_add_net_iface s2_env_c0 c cfg f = 0"
  "asprintf_ok s2_env_c0"
  "network_rename_ifi s2_env_c0 a b = 0"
  "cmld_netif_phys_remove_by_name s2_env_c0 a = False"
  "uevent_replace_member s2_env_c0 = uevent_replace_member s2_env"
  by (simp_all add: s2_env_stopped_def s2_env_c0_def s2_env_def env_quiet_def)

lemma s2_devpath:
  "hotplug_replace_devpath_new ''/devices/pci0/net/eth7'' ''eth7'' ''cmleth0'' =
     Some ''/devices/pci0/net/cmleth0''"
  by (simp add: hotplug_replace_devpath_new_def)

lemma s2_rename_interface:
  assumes "asprintf_ok env" and "\<And>a b. network_rename_ifi env a b = 0"
    and "uevent_replace_member env = uevent_replace_member s2_env"
    and "cmld_eth_idx s = 0"
  shows "fst (hotplug_rename_interface env s2_event s) =
     Some (s2_event\<lparr>uevent_event_get_interface := ''cmleth0'',
                    uevent_event_get_devpath := ''/devices/pci0/net/cmleth0''\<rparr>)"
  using assms
  by (simp add: hotplug_rename_interface_def hotplug_rename_ifi_new_def s2_event_proj
      s2_devpath s2_env_proj dec_of_int_small Let_def)

text \<open>S2 with compartment 2 stopped: the move is refused with one warning.\<close>

theorem netdev_move_refused_unless_running_witness:
  "network_get_mac_by_ifname s2_env_stopped (uevent_event_get_interface s2_event)
     = Some [2, 0, 0, 0, 0, 1]
   \<and> netdev_mapping_lookup [2, 0, 0, 0, 0, 1]
        (hotplug_container_netdev_mapping_list s2_registered)
       = Some \<lparr>net_container = 2, net_pnet_cfg = 0, net_mac = [2, 0, 0, 0, 0, 1]\<rparr>
   \<and> container_get_state s2_env_stopped 2 \<notin>
        {COMPARTMENT_STATE_STARTING, COMPARTMENT_STATE_BOOTING, COMPARTMENT_STATE_RUNNING}
   \<and> fst (hotplug_netdev_move s2_env_stopped s2_event s2_registered) = - 1
   \<and> fst (snd (hotplug_netdev_move s2_env_stopped s2_event s2_registered)) =
       [Logf LOGF_PRIO_WARN ''Target container '%s' is not running, skip moving %s'']"
proof -
  have a: "network_get_mac_by_ifname s2_env_stopped (uevent_event_get_interface s2_event)
     = Some [2, 0, 0, 0, 0, 1]"
    by (simp add: s2_env_variants s2_env_proj s2_event_proj)
  have l: "netdev_mapping_lookup [2, 0, 0, 0, 0, 1]
        (hotplug_container_netdev_mapping_list s2_registered)
       = Some \<lparr>net_container = 2, net_pnet_cfg = 0, net_mac = [2, 0, 0, 0, 0, 1]\<rparr>"
    by (simp add: netdev_mapping_lookup_def s2_registered_proj)
  have b: "(case netdev_mapping_lookup [2, 0, 0, 0, 0, 1]
              (hotplug_container_netdev_mapping_list s2_registered) of
            Some mapping \<Rightarrow> Some (net_container mapping)
          | None \<Rightarrow> cmld_containers_get_c0 s2_env_stopped) = Some 2"
    by (simp add: l)
  have c: "container_get_state s2_env_stopped 2 \<notin>
        {COMPARTMENT_STATE_STARTING, COMPARTMENT_STATE_BOOTING, COMPARTMENT_STATE_RUNNING}"
    by (simp add: s2_env_variants)
  note t = netdev_move_refused_unless_running [OF a b c]
  have r1: "fst (hotplug_netdev_move s2_env_stopped s2_event s2_registered) = - 1"
    using t by (rule conjunct1)
  have r2: "fst (snd (hotplug_netdev_move s2_env_stopped s2_event s2_registered)) =
       [Logf LOGF_PRIO_WARN ''Target container '%s' is not running, skip moving %s'']"
    using t [THEN conjunct2, THEN conjunct1] by (simp add: l)
  show ?thesis
    by (intro conjI) (rule a, rule l, rule c, rule r1, rule r2)
qed

text \<open>S2 without the mapping: eth7 goes to compartment 0 as cmleth0.\<close>

theorem netdev_move_unmatched_to_c0_witness:
  "network_get_mac_by_ifname s2_env_c0 (uevent_event_get_interface s2_event)
     = Some [2, 0, 0, 0, 0, 1]
   \<and> netdev_mapping_lookup [2, 0, 0, 0, 0, 1] (hotplug_container_netdev_mapping_list s2_cfgs)
       = None
   \<and> cmld_containers_get_c0 s2_env_c0 = Some 0
   \<and> container_get_state s2_env_c0 0 \<in>
        {COMPARTMENT_STATE_STARTING, COMPARTMENT_STATE_BOOTING, COMPARTMENT_STATE_RUNNING}
   \<and> filter is_add_net_iface (fst (snd (hotplug_netdev_move s2_env_c0 s2_event s2_cfgs))) =
        [Cmld_container_add_net_iface 0 2
           \<lparr>pnet_name = ''cmleth0'', mac_filter = False, mac_whitelist = []\<rparr> False]
   \<and> fst (hotplug_netdev_move s2_env_c0 s2_event s2_cfgs) = 0"
proof -
  have a: "network_get_mac_by_ifname s2_env_c0 (uevent_event_get_interface s2_event)
     = Some [2, 0, 0, 0, 0, 1]"
    by (simp add: s2_env_variants s2_env_proj s2_event_proj)
  have b: "netdev_mapping_lookup [2, 0, 0, 0, 0, 1]
      (hotplug_container_netdev_mapping_list s2_cfgs) = None"
    by (simp add: netdev_mapping_lookup_def s2_cfgs_proj)
  have c: "cmld_containers_get_c0 s2_env_c0 = Some 0" by (rule s2_env_variants)
  have d: "container_get_state s2_env_c0 0 \<in>
        {COMPARTMENT_STATE_STARTING, COMPARTMENT_STATE_BOOTING, COMPARTMENT_STATE_RUNNING}"
    by (simp add: s2_env_variants s2_env_proj)
  have n: "netdev_final_name s2_env_c0 s2_event
      (snd (container_pnet_cfg_new (uevent_event_get_interface s2_event) False [] s2_cfgs))
      (uevent_event_get_interface s2_event) = ''cmleth0''"
    by (simp add: netdev_final_name_def
        s2_rename_interface [OF s2_env_variants(7) s2_env_variants(8) s2_env_variants(10)]
        pnet_cfg_new_proj s2_cfgs_idx)
  note t = netdev_move_unmatched_to_c0 [OF a b c d]
  have r1: "filter is_add_net_iface (fst (snd (hotplug_netdev_move s2_env_c0 s2_event s2_cfgs))) =
        [Cmld_container_add_net_iface 0 2
           \<lparr>pnet_name = ''cmleth0'', mac_filter = False, mac_whitelist = []\<rparr> False]"
    using t [THEN conjunct1] by (simp add: n s2_cfgs_proj)
  have r2: "fst (hotplug_netdev_move s2_env_c0 s2_event s2_cfgs) = 0"
    using t [THEN conjunct2, THEN conjunct1] by (simp add: s2_env_variants)
  show ?thesis
    by (intro conjI) (rule a, rule b, rule c, rule d, rule r1, rule r2)
qed

text \<open>S2: the uevent is injected into compartment 2 with the names cmleth0.\<close>

theorem netdev_move_injects_unless_bridged_witness:
  "network_get_mac_by_ifname s2_env (uevent_event_get_interface s2_event)
     = Some [2, 0, 0, 0, 0, 1]
   \<and> netdev_mapping_lookup [2, 0, 0, 0, 0, 1]
        (hotplug_container_netdev_mapping_list s2_registered)
       = Some \<lparr>net_container = 2, net_pnet_cfg = 0, net_mac = [2, 0, 0, 0, 0, 1]\<rparr>
   \<and> fst (hotplug_netdev_move s2_env s2_event s2_registered) = 0
   \<and> \<not> mac_filter (pnet_cfg_mem s2_registered 0)
   \<and> filter is_inject (fst (snd (hotplug_netdev_move s2_env s2_event s2_registered))) =
        [Uevent_event_inject_into_netns
           (s2_event\<lparr>uevent_event_get_interface := ''cmleth0'',
                     uevent_event_get_devpath := ''/devices/pci0/net/cmleth0''\<rparr>) 2]"
proof -
  have a: "network_get_mac_by_ifname s2_env (uevent_event_get_interface s2_event)
     = Some [2, 0, 0, 0, 0, 1]"
    by (simp add: s2_env_proj s2_event_proj)
  have b: "netdev_mapping_lookup [2, 0, 0, 0, 0, 1]
        (hotplug_container_netdev_mapping_list s2_registered)
       = Some \<lparr>net_container = 2, net_pnet_cfg = 0, net_mac = [2, 0, 0, 0, 0, 1]\<rparr>"
    by (simp add: netdev_mapping_lookup_def s2_registered_proj)
  have acc: "container_accepts_netdev s2_env 2"
    by (simp add: container_accepts_netdev_def s2_env_proj)
  have c: "fst (hotplug_netdev_move s2_env s2_event s2_registered) = 0"
    unfolding netdev_move_mapped [OF a b]
    using acc by (simp add: move_tail_props(2) s2_env_proj)
  have e: "netdev_final_event s2_env s2_event s2_registered =
      s2_event\<lparr>uevent_event_get_interface := ''cmleth0'',
                uevent_event_get_devpath := ''/devices/pci0/net/cmleth0''\<rparr>"
    by (simp add: netdev_final_event_def
        s2_rename_interface [OF s2_env_proj(1) s2_env_proj(2) refl] s2_registered_proj)
  have f: "\<not> mac_filter (pnet_cfg_mem s2_registered 0)"
    by (simp add: s2_registered_proj)
  have r: "filter is_inject (fst (snd (hotplug_netdev_move s2_env s2_event s2_registered))) =
        [Uevent_event_inject_into_netns
           (s2_event\<lparr>uevent_event_get_interface := ''cmleth0'',
                     uevent_event_get_devpath := ''/devices/pci0/net/cmleth0''\<rparr>) 2]"
    using netdev_move_injects_unless_bridged [OF a b c] by (simp add: e f)
  show ?thesis
    by (intro conjI) (rule a, rule b, rule c, rule f, rule r)
qed

end
